theory Spec2Isabelle
  imports Complex_Main
begin

section \<open>JavaScript values shared by the collaborators\<close>

text \<open>
  A JavaScript string is represented by the bytes of its UTF-8 encoding (\<open>string\<close>), the
  form in which the process environment and the GitHub API deliver it: an ASCII
  character is one byte, every other character a sequence of two to four bytes of
  \<open>0x80\<close> and above. A thrown value is either a plain \<open>Error(message)\<close>, a \<open>TypeError\<close> raised
  by the runtime, or the request error of the GitHub client, which carries the HTTP
  status of the response.
\<close>

datatype js_error = Error string | TypeError string | RequestError nat

text \<open>\<open>error.status\<close>: only a request error has the property, otherwise it is undefined.\<close>

fun status :: "js_error \<Rightarrow> nat option" where
  "status (RequestError s) = Some s"
| "status (Error m) = None"
| "status (TypeError m) = None"

text \<open>
  The characters \<open>String.prototype.trim\<close> strips, each by its UTF-8 bytes: the ECMAScript
  white space TAB, VT, FF, SPACE, U+00A0 (\<open>C2 A0\<close>), U+1680 (\<open>E1 9A 80\<close>), U+2000 to U+200A
  (\<open>E2 80 80\<close> to \<open>E2 80 8A\<close>), U+202F (\<open>E2 80 AF\<close>), U+205F (\<open>E2 81 9F\<close>), U+3000
  (\<open>E3 80 80\<close>) and U+FEFF (\<open>EF BB BF\<close>), and the line terminators LF, CR, U+2028
  (\<open>E2 80 A8\<close>) and U+2029 (\<open>E2 80 A9\<close>).
\<close>

definition WhiteSpace :: "string list" where
  "WhiteSpace =
     [[CHR 0x09], [CHR 0x0A], [CHR 0x0B], [CHR 0x0C], [CHR 0x0D], [CHR 0x20],
      [CHR 0xC2, CHR 0xA0],
      [CHR 0xE1, CHR 0x9A, CHR 0x80],
      [CHR 0xE2, CHR 0x80, CHR 0x80], [CHR 0xE2, CHR 0x80, CHR 0x81],
      [CHR 0xE2, CHR 0x80, CHR 0x82], [CHR 0xE2, CHR 0x80, CHR 0x83],
      [CHR 0xE2, CHR 0x80, CHR 0x84], [CHR 0xE2, CHR 0x80, CHR 0x85],
      [CHR 0xE2, CHR 0x80, CHR 0x86], [CHR 0xE2, CHR 0x80, CHR 0x87],
      [CHR 0xE2, CHR 0x80, CHR 0x88], [CHR 0xE2, CHR 0x80, CHR 0x89],
      [CHR 0xE2, CHR 0x80, CHR 0x8A],
      [CHR 0xE2, CHR 0x80, CHR 0xA8], [CHR 0xE2, CHR 0x80, CHR 0xA9],
      [CHR 0xE2, CHR 0x80, CHR 0xAF],
      [CHR 0xE2, CHR 0x81, CHR 0x9F],
      [CHR 0xE3, CHR 0x80, CHR 0x80],
      [CHR 0xEF, CHR 0xBB, CHR 0xBF]]"

text \<open>
  \<open>strip ws s\<close> removes from the front of \<open>s\<close> every leading occurrence of one of the byte
  sequences \<open>ws\<close>, until \<open>s\<close> begins with none of them.
\<close>

fun strip :: "string list \<Rightarrow> string \<Rightarrow> string" where
  "strip ws [] = []"
| "strip ws (c # cs) =
     (case find (\<lambda>w. w \<noteq> [] \<and> take (length w) (c # cs) = w) ws of
        None \<Rightarrow> c # cs
      | Some w \<Rightarrow> strip ws (drop (length w - 1) cs))"

text \<open>
  \<open>String.prototype.trim\<close>: the white space and line terminators are stripped from the
  front, and from the end (the front of the reversed string, each character's bytes
  reversed).
\<close>

definition trim :: "string \<Rightarrow> string" where
  "trim s = rev (strip (map rev WhiteSpace) (rev (strip WhiteSpace s)))"

text \<open>\<open>process.env\<close>: a variable is unset (undefined) or holds a string, possibly empty.\<close>

type_synonym process_env = "string \<rightharpoonup> string"

text \<open>
  Truthiness of \<open>process.env.X\<close>: undefined and the empty string are falsy, every other
  string is truthy. \<open>if_truthy x f d\<close> is \<open>x ? f(x) : d\<close>, and with the identity for \<open>f\<close> it is
  \<open>x || d\<close>.
\<close>

fun if_truthy :: "string option \<Rightarrow> (string \<Rightarrow> 'a) \<Rightarrow> 'a \<Rightarrow> 'a" where
  "if_truthy None f d = d"
| "if_truthy (Some s) f d = (if s = [] then d else f s)"

text \<open>
  \<open>Repository\<close> of \<open>./types/index.js\<close>, with the shape \<open>Configuration\<close> initialises:
  \<open>{ owner: '', name: '', pullNumber: undefined }\<close>. \<open>name\<close> is assigned from an array
  destructuring and is undefined when the array has one element only. A JavaScript
  number is NaN, an infinity or a finite value.
\<close>

datatype js_number = NaN | PosInfinity | NegInfinity | Finite real

record repository =
  owner :: string
  name :: "string option"
  pullNumber :: "js_number option"

section \<open>GitManager\<close>

subsection \<open>The GitHub client\<close>

text \<open>
  The requests \<open>GitManager.commitFile\<close> and \<open>GitManager.createPullRequest\<close> send through
  Octokit, with the parameters the source passes. A \<open>sha\<close> or \<open>labels\<close> that is undefined
  is \<open>None\<close>.
\<close>

datatype api_call =
    ReposGetContent string "string option" string string
  | ReposCreateOrUpdateFileContents string "string option" string string string "string option" string
  | PullsList string "string option" string
  | PullsCreate string "string option" string string string string "string list option"
  | UsersGetAuthenticated
  | PullsRequestReviewers string "string option" nat "string list"

fun is_PullsCreate :: "api_call \<Rightarrow> bool" where
  "is_PullsCreate (PullsCreate ow nm t b h bs ls) = True"
| "is_PullsCreate c = False"

fun is_PullsRequestReviewers :: "api_call \<Rightarrow> bool" where
  "is_PullsRequestReviewers (PullsRequestReviewers ow nm n rs) = True"
| "is_PullsRequestReviewers c = False"

text \<open>
  The remote side is a state \<open>'w\<close> and one transition per endpoint: a request either
  resolves with the data the source reads from the response (the \<open>sha\<close> property of the
  content, the numbers of the listed pull requests, the number of the created one, the
  login of the authenticated user) or rejects with a thrown value.
\<close>

record 'w octokit =
  repos_getContent ::
    "string \<Rightarrow> string option \<Rightarrow> string \<Rightarrow> string \<Rightarrow> 'w \<Rightarrow> (js_error + string option) \<times> 'w"
  repos_createOrUpdateFileContents ::
    "string \<Rightarrow> string option \<Rightarrow> string \<Rightarrow> string \<Rightarrow> string \<Rightarrow> string option \<Rightarrow> string \<Rightarrow> 'w
      \<Rightarrow> (js_error + unit) \<times> 'w"
  pulls_list :: "string \<Rightarrow> string option \<Rightarrow> string \<Rightarrow> 'w \<Rightarrow> (js_error + nat list) \<times> 'w"
  pulls_create ::
    "string \<Rightarrow> string option \<Rightarrow> string \<Rightarrow> string \<Rightarrow> string \<Rightarrow> string \<Rightarrow> string list option \<Rightarrow> 'w
      \<Rightarrow> (js_error + nat) \<times> 'w"
  users_getAuthenticated :: "'w \<Rightarrow> (js_error + string) \<times> 'w"
  pulls_requestReviewers ::
    "string \<Rightarrow> string option \<Rightarrow> nat \<Rightarrow> string list \<Rightarrow> 'w \<Rightarrow> (js_error + unit) \<times> 'w"

text \<open>The state threaded through a method: the requests sent so far, and the remote.\<close>

record 'w github =
  calls :: "api_call list"
  remote :: "'w"

definition send ::
  "api_call \<Rightarrow> ('w \<Rightarrow> (js_error + 'a) \<times> 'w) \<Rightarrow> 'w github \<Rightarrow> (js_error + 'a) \<times> 'w github" where
  "send c f g = (case f (remote g) of (r, w) \<Rightarrow> (r, \<lparr>calls = calls g @ [c], remote = w\<rparr>))"

definition new_calls :: "'w github \<Rightarrow> 'w github \<Rightarrow> api_call list" where
  "new_calls g g' = drop (length (calls g)) (calls g')"

subsection \<open>constructor\<close>

text \<open>
  The manager holds the repository and the Octokit instance, which is determined by its
  \<open>auth\<close> option.
\<close>

record git_manager =
  gm_repository :: repository
  octokit_auth :: string

definition GitManager :: "process_env \<Rightarrow> repository \<Rightarrow> js_error + git_manager" where
  "GitManager env repo =
     if_truthy (env ''GITHUB_ACCESS_TOKEN'')
       (\<lambda>token. Inr \<lparr>gm_repository = repo, octokit_auth = token\<rparr>)
       (Inl (Error ''GITHUB_ACCESS_TOKEN is not set''))"

subsection \<open>commitFile\<close>

text \<open>\<open>Buffer.from(content).toString('base64')\<close> is the platform's encoder, a parameter.\<close>

definition posix :: "string \<Rightarrow> string" where
  "posix filePath = map (\<lambda>c. if c = CHR 0x5C then CHR ''/'' else c) filePath"

definition commitFile ::
  "'w octokit \<Rightarrow> (string \<Rightarrow> string) \<Rightarrow> git_manager \<Rightarrow> string \<Rightarrow> string \<Rightarrow> string \<Rightarrow> string
     \<Rightarrow> 'w github \<Rightarrow> (js_error + unit) \<times> 'w github" where
  "commitFile api base64 this branchName filePath content message g =
     (let posixFilePath = posix filePath;
          ow = owner (gm_repository this);
          nm = name (gm_repository this);
          catch = (\<lambda>error g'.
            if status error = Some 404
            then send (ReposCreateOrUpdateFileContents ow nm posixFilePath message
                         (base64 content) None branchName)
                      (repos_createOrUpdateFileContents api ow nm posixFilePath message
                         (base64 content) None branchName) g'
            else (Inl error, g'))
      in case send (ReposGetContent ow nm posixFilePath branchName)
                   (repos_getContent api ow nm posixFilePath branchName) g of
           (Inl error, g1) \<Rightarrow> catch error g1
         | (Inr sha, g1) \<Rightarrow>
             (case send (ReposCreateOrUpdateFileContents ow nm posixFilePath message
                           (base64 content) sha branchName)
                        (repos_createOrUpdateFileContents api ow nm posixFilePath message
                           (base64 content) sha branchName) g1 of
                (Inl error, g2) \<Rightarrow> catch error g2
              | (Inr u, g2) \<Rightarrow> (Inr (), g2)))"

subsection \<open>createPullRequest\<close>

record create_pull_request_options =
  title :: string
  body :: string
  head :: string
  base :: string
  labels :: "string list option"
  reviewers :: "string list option"

text \<open>
  The \<open>catch\<close> of \<open>createPullRequest\<close> logs and rethrows, so every rejected request is the
  method's result. \<open>requestReviews\<close> is the body of \<open>if (reviewers && reviewers.length > 0)\<close>.
\<close>

definition requestReviews ::
  "'w octokit \<Rightarrow> git_manager \<Rightarrow> nat \<Rightarrow> string list \<Rightarrow> 'w github \<Rightarrow> (js_error + unit) \<times> 'w github" where
  "requestReviews api this pr_number rs g =
     (case send UsersGetAuthenticated (users_getAuthenticated api) g of
        (Inl error, g1) \<Rightarrow> (Inl error, g1)
      | (Inr prAuthor, g1) \<Rightarrow>
          (let reviewersToRequest = filter (\<lambda>reviewer. trim reviewer \<noteq> prAuthor) rs
           in if length reviewersToRequest > 0
              then send (PullsRequestReviewers (owner (gm_repository this))
                           (name (gm_repository this)) pr_number reviewersToRequest)
                        (pulls_requestReviewers api (owner (gm_repository this))
                           (name (gm_repository this)) pr_number reviewersToRequest) g1
              else (Inr (), g1)))"

definition createPullRequest ::
  "'w octokit \<Rightarrow> git_manager \<Rightarrow> create_pull_request_options \<Rightarrow> 'w github
     \<Rightarrow> (js_error + unit) \<times> 'w github" where
  "createPullRequest api this options g =
     (let ow = owner (gm_repository this);
          nm = name (gm_repository this)
      in case send (PullsList ow nm (head options)) (pulls_list api ow nm (head options)) g of
           (Inl error, g1) \<Rightarrow> (Inl error, g1)
         | (Inr existingPr, g1) \<Rightarrow>
             if length existingPr > 0 then (Inr (), g1)
             else
               (case send (PullsCreate ow nm (title options) (body options) (head options)
                             (base options) (labels options))
                          (pulls_create api ow nm (title options) (body options) (head options)
                             (base options) (labels options)) g1 of
                  (Inl error, g2) \<Rightarrow> (Inl error, g2)
                | (Inr pr_number, g2) \<Rightarrow>
                    (case reviewers options of
                       None \<Rightarrow> (Inr (), g2)
                     | Some rs \<Rightarrow>
                         if length rs > 0 then requestReviews api this pr_number rs g2
                         else (Inr (), g2))))"

subsection \<open>A remote for concrete runs\<close>

text \<open>
  A remote whose state counts the requests it has served: it answers the content and
  write requests as given, lists the given pull requests, numbers a created pull request
  after them, and authenticates the given login.
\<close>

definition stub_api ::
  "(js_error + string option) \<Rightarrow> (js_error + unit) \<Rightarrow> nat list \<Rightarrow> string \<Rightarrow> nat octokit" where
  "stub_api content written prs login =
     \<lparr>repos_getContent = (\<lambda>ow nm p r w. (content, Suc w)),
      repos_createOrUpdateFileContents = (\<lambda>ow nm p m c s b w. (written, Suc w)),
      pulls_list = (\<lambda>ow nm h w. (Inr prs, Suc w)),
      pulls_create = (\<lambda>ow nm t b h bs ls w. (Inr (Suc (length prs)), Suc w)),
      users_getAuthenticated = (\<lambda>w. (Inr login, Suc w)),
      pulls_requestReviewers = (\<lambda>ow nm n rs w. (Inr (), Suc w))\<rparr>"

definition demo_repository :: repository where
  "demo_repository = \<lparr>owner = ''nydiokar'', name = Some ''autodoc'', pullNumber = None\<rparr>"

definition demo_manager :: git_manager where
  "demo_manager = \<lparr>gm_repository = demo_repository, octokit_auth = ''ghp_token''\<rparr>"

definition demo_options :: "string list option \<Rightarrow> create_pull_request_options" where
  "demo_options rs = \<lparr>title = ''JSDoc Generation'', body = ''Automated JSDoc generation for the codebase'',
      head = ''docs'', base = ''develop'', labels = Some [''documentation'', ''automated-pr''],
      reviewers = rs\<rparr>"

definition fresh :: "nat github" where
  "fresh = \<lparr>calls = [], remote = 0\<rparr>"

section \<open>Configuration\<close>

subsection \<open>String operations\<close>

text \<open>
  \<open>String.prototype.toUpperCase\<close>, on ASCII: the letters a to z become A to Z. No character
  outside ASCII has the upper-case form \<open>T\<close>, so the comparison of the result with \<open>'T'\<close> is
  decided by the ASCII letters alone.
\<close>

definition upper :: "char \<Rightarrow> char" where
  "upper c =
     (case map_of (zip ''abcdefghijklmnopqrstuvwxyz'' ''ABCDEFGHIJKLMNOPQRSTUVWXYZ'') c of
        None \<Rightarrow> c
      | Some u \<Rightarrow> u)"

definition toUpperCase :: "string \<Rightarrow> string" where
  "toUpperCase s = map upper s"

text \<open>
  \<open>String.prototype.split(sep)\<close> for a separator of one character: the pieces between
  the separators, the empty string giving one empty piece.
\<close>

fun split :: "char \<Rightarrow> string \<Rightarrow> string list" where
  "split sep [] = [[]]"
| "split sep (c # cs) =
     (if c = sep then [] # split sep cs
      else (case split sep cs of
              [] \<Rightarrow> [[c]]
            | piece # pieces \<Rightarrow> (c # piece) # pieces))"

text \<open>\<open>Array.prototype.join(sep)\<close>.\<close>

fun join :: "string \<Rightarrow> string list \<Rightarrow> string" where
  "join sep [] = []"
| "join sep [x] = x"
| "join sep (x # y # ys) = x @ sep @ join sep (y # ys)"

text \<open>\<open>s.replace(/^\/+/, '')\<close>: the leading slashes are removed.\<close>

definition stripLeadingSlashes :: "string \<Rightarrow> string" where
  "stripLeadingSlashes s = dropWhile (\<lambda>c. c = CHR ''/'') s"

subsection \<open>The parsed workflow file\<close>

text \<open>
  The values \<open>yaml.parse\<close> returns: null, booleans, numbers, strings, arrays and plain
  objects (a list of key and value, the first entry of a key being its value).
\<close>

datatype yaml =
    YNull
  | YBool bool
  | YNum js_number
  | YStr string
  | YSeq "yaml list"
  | YMap "(string \<times> yaml) list"

text \<open>
  Member access \<open>v.key\<close>, where \<open>None\<close> is undefined: a TypeError on undefined and null,
  the entry of an object, and undefined on everything else (none of the keys read here
  is a property of a primitive or of an array).
\<close>

fun member :: "yaml option \<Rightarrow> string \<Rightarrow> js_error + yaml option" where
  "member None key = Inl (TypeError (''Cannot read properties of undefined (reading '' @ key @ '')''))"
| "member (Some YNull) key = Inl (TypeError (''Cannot read properties of null (reading '' @ key @ '')''))"
| "member (Some (YMap entries)) key = Inr (map_of entries key)"
| "member (Some v) key = Inr None"

text \<open>Optional chaining \<open>v?.key\<close>: undefined on undefined and null.\<close>

fun optional_member :: "yaml option \<Rightarrow> string \<Rightarrow> yaml option" where
  "optional_member None key = None"
| "optional_member (Some YNull) key = None"
| "optional_member (Some (YMap entries)) key = map_of entries key"
| "optional_member (Some v) key = None"

text \<open>\<open>!v\<close>: undefined, null, false, zero, NaN and the empty string are falsy.\<close>

fun falsy :: "yaml option \<Rightarrow> bool" where
  "falsy None = True"
| "falsy (Some YNull) = True"
| "falsy (Some (YBool b)) = (\<not> b)"
| "falsy (Some (YNum n)) = (n = NaN \<or> n = Finite 0)"
| "falsy (Some (YStr s)) = (s = [])"
| "falsy (Some (YSeq vs)) = False"
| "falsy (Some (YMap entries)) = False"

subsection \<open>The process and its platform\<close>

text \<open>
  What the constructor reads: the environment, the working directory, the file system
  (a path that exists is mapped to its text, or to the error reading it throws), and the
  library functions \<open>path.resolve\<close>, \<open>path.join\<close>, \<open>yaml.parse\<close> and \<open>Number.parseInt\<close>, which are
  parameters.
\<close>

record host =
  env :: process_env
  cwd :: string
  files :: "string \<rightharpoonup> (js_error + string)"
  path_resolve :: "string \<Rightarrow> string \<Rightarrow> string"
  path_join :: "string \<Rightarrow> string \<Rightarrow> string"
  yaml_parse :: "string \<Rightarrow> js_error + yaml"
  parseInt :: "string \<Rightarrow> js_number"

definition getRepoRoot :: "host \<Rightarrow> string" where
  "getRepoRoot h = if_truthy (env h ''GITHUB_WORKSPACE'') (\<lambda>workspace. workspace) (cwd h)"

subsection \<open>The class\<close>

record root_directory =
  absolute :: string
  relative :: string

text \<open>
  The fields of \<open>Configuration\<close>. \<open>rootDirectory\<close> has no initialiser: it is undefined
  (\<open>None\<close>) until \<open>loadConfiguration\<close> assigns it.
\<close>

record configuration =
  rootDirectory :: "root_directory option"
  repoRoot :: string
  branch :: string
  generateJsDoc :: bool
  generateReadme :: bool
  useGit :: bool
  excludedDirectories :: "string list"
  repository :: repository
  commitMessage :: string
  pullRequestTitle :: string
  pullRequestDescription :: string
  pullRequestLabels :: "string list"
  pullRequestReviewers :: "string list"
  excludedFiles :: "string list"

definition field_initialisers :: "string \<Rightarrow> configuration" where
  "field_initialisers repo_root =
     \<lparr>rootDirectory = None,
      repoRoot = repo_root,
      branch = ''develop'',
      generateJsDoc = True,
      generateReadme = False,
      useGit = True,
      excludedDirectories = [],
      repository = \<lparr>owner = [], name = Some [], pullNumber = None\<rparr>,
      commitMessage = ''Generated JSDoc comments'',
      pullRequestTitle = ''JSDoc Generation'',
      pullRequestDescription = ''Automated JSDoc generation for the codebase'',
      pullRequestLabels = [''documentation'', ''automated-pr''],
      pullRequestReviewers = [],
      excludedFiles = [''index.d.ts'']\<rparr>"

definition parseCommaSeparatedInput :: "string option \<Rightarrow> string list \<Rightarrow> string list" where
  "parseCommaSeparatedInput input defaultValue =
     if_truthy input
       (\<lambda>text. filter (\<lambda>item. item \<noteq> []) (map trim (split CHR '','' text)))
       defaultValue"

text \<open>
  The \<open>else\<close> branch of \<open>if (rootDirectory)\<close> in \<open>loadConfiguration\<close>: the root directory
  from the default of the \<open>root_directory\<close> input of the workflow file. \<open>path.resolve\<close>
  throws a TypeError on an argument that is not a string.
\<close>

definition rootDirectoryFromWorkflow :: "host \<Rightarrow> string \<Rightarrow> js_error + root_directory" where
  "rootDirectoryFromWorkflow h repo_root =
     (let workflowPath = path_join h repo_root ''.github/workflows/jsdoc-automation.yml''
      in case files h workflowPath of
           None \<Rightarrow> Inl (Error (''Workflow file not found at '' @ workflowPath))
         | Some (Inl error) \<Rightarrow> Inl error
         | Some (Inr workflowContent) \<Rightarrow>
             (case yaml_parse h workflowContent of
                Inl error \<Rightarrow> Inl error
              | Inr workflow \<Rightarrow>
                  (case member (Some workflow) ''on'' of
                     Inl error \<Rightarrow> Inl error
                   | Inr on \<Rightarrow>
                       (case member on ''workflow_dispatch'' of
                          Inl error \<Rightarrow> Inl error
                        | Inr workflow_dispatch \<Rightarrow>
                            (case member workflow_dispatch ''inputs'' of
                               Inl error \<Rightarrow> Inl error
                             | Inr inputs \<Rightarrow>
                                 (let dflt = optional_member
                                        (optional_member inputs ''root_directory'') ''default''
                                  in if falsy dflt
                                     then Inl (Error
                                       ''No root directory default found in workflow configuration'')
                                     else (case dflt of
                                             Some (YStr targetDir) \<Rightarrow>
                                               Inr \<lparr>absolute = path_resolve h repo_root targetDir,
                                                    relative = stripLeadingSlashes targetDir\<rparr>
                                           | _ \<Rightarrow> Inl (TypeError
                                               ''The paths[1] argument must be of type string''))))))))"

definition loadConfiguration :: "host \<Rightarrow> configuration \<Rightarrow> js_error + configuration" where
  "loadConfiguration h this =
     (let flagged = this
            \<lparr>generateJsDoc :=
               if_truthy (env h ''INPUT_JSDOC'') (\<lambda>v. toUpperCase v = ''T'') True,
             generateReadme :=
               if_truthy (env h ''INPUT_README'') (\<lambda>v. toUpperCase v = ''T'') True\<rparr>
      in case if_truthy (env h ''INPUT_ROOT_DIRECTORY'')
                (\<lambda>rootDirectory.
                   Inr \<lparr>absolute = path_resolve h (repoRoot this) rootDirectory,
                        relative = stripLeadingSlashes rootDirectory\<rparr>)
                (rootDirectoryFromWorkflow h (repoRoot this)) of
           Inl error \<Rightarrow> Inl error
         | Inr resolved \<Rightarrow>
             Inr (flagged
               \<lparr>rootDirectory := Some resolved,
                repository :=
                  (if_truthy (env h ''GITHUB_REPOSITORY'')
                     (\<lambda>v. let parts = split CHR ''/'' v
                          in (repository this)
                               \<lparr>owner := hd parts,
                                name := (if length parts > 1 then Some (parts ! 1) else None)\<rparr>)
                     ((repository this)\<lparr>owner := ''nydiokar'', name := Some ''sova''\<rparr>))
                  \<lparr>pullNumber :=
                     if_truthy (env h ''INPUT_PULL_NUMBER'') (\<lambda>v. Some (parseInt h v))
                       (pullNumber (repository this))\<rparr>,
                excludedDirectories :=
                  parseCommaSeparatedInput (env h ''INPUT_EXCLUDED_DIRECTORIES'')
                    [''node_modules'', ''dist'', ''test''],
                pullRequestReviewers := parseCommaSeparatedInput (env h ''INPUT_REVIEWERS'') [],
                branch := if_truthy (env h ''INPUT_BRANCH'') (\<lambda>v. v) ''develop''\<rparr>))"

text \<open>\<open>new Configuration()\<close>.\<close>

definition Configuration :: "host \<Rightarrow> js_error + configuration" where
  "Configuration h = loadConfiguration h (field_initialisers (getRepoRoot h))"

text \<open>
  What a workflow document declares at a path of keys, read without any throwing: the
  entry of an object at each key.
\<close>

fun child :: "yaml \<Rightarrow> string \<Rightarrow> yaml option" where
  "child (YMap entries) key = map_of entries key"
| "child v key = None"

fun lookup_path :: "string list \<Rightarrow> yaml \<Rightarrow> yaml option" where
  "lookup_path [] v = Some v"
| "lookup_path (key # keys) v =
     (case child v key of None \<Rightarrow> None | Some v' \<Rightarrow> lookup_path keys v')"

definition declared_default :: "yaml \<Rightarrow> yaml option" where
  "declared_default workflow =
     lookup_path [''on'', ''workflow_dispatch'', ''inputs'', ''root_directory'', ''default''] workflow"

subsection \<open>A host for concrete runs\<close>

text \<open>
  The workflow of the repository, as far as the constructor reads it, on a host that
  concatenates paths with a slash and parses two texts: \<open>workflow\<close>, and \<open>{}\<close> as the empty
  object.
\<close>

definition demo_workflow :: yaml where
  "demo_workflow =
     YMap [(''name'', YStr ''Autodocs Documentation Generator''),
           (''on'', YMap [(''workflow_dispatch'', YMap [(''inputs'',
              YMap [(''jsdoc'', YMap [(''required'', YBool True), (''default'', YStr ''T'')]),
                    (''root_directory'', YMap [(''required'', YBool True),
                                               (''default'', YStr ''src'')])])])])]"

definition demo_host :: "process_env \<Rightarrow> (string \<rightharpoonup> (js_error + string)) \<Rightarrow> host" where
  "demo_host e fs =
     \<lparr>env = e, cwd = ''/repo'', files = fs,
      path_resolve = (\<lambda>a b. a @ ''/'' @ b),
      path_join = (\<lambda>a b. a @ ''/'' @ b),
      yaml_parse = (\<lambda>t. if t = ''workflow'' then Inr demo_workflow
                         else if t = ''{}'' then Inr (YMap [])
                         else Inl (Error ''YAMLParseError'')),
      parseInt = (\<lambda>t. NaN)\<rparr>"

section \<open>The documentation pipeline\<close>

text \<open>
  The analysis and patching pipeline (the classes \<open>DirectoryTraversal\<close>, \<open>TypeScriptParser\<close>,
  \<open>JsDocAnalyzer\<close>, \<open>JsDocGenerator\<close> and \<open>DocumentationGenerator\<close> that \<open>cli.ts\<close> imports
  and instantiates) is not among the source files. Its data model and components are
  modelled from sections 3, 4 and 7 of the specification.
\<close>

subsection \<open>Data model\<close>

text \<open>Modelled from the spec: a range of lines of the missing data model, both ends
  inclusive (section 3, "byte/line range").
\<close>

record line_range =
  first_line :: nat
  last_line :: nat

text \<open>Modelled from the spec: two line ranges of the missing Coverage Analyzer intersect
  when they share a line (section 3, "its header range intersects any changed range").
\<close>

definition intersects :: "line_range \<Rightarrow> line_range \<Rightarrow> bool" where
  "intersects a b = (first_line a \<le> last_line b \<and> first_line b \<le> last_line a)"

text \<open>Modelled from the spec: the kinds of the missing \<open>Declaration\<close> (section 3,
  "function/class/method/interface/type/const").
\<close>

datatype declaration_kind = Function | Class | Method | Interface | TypeAlias | Const

text \<open>Modelled from the spec: the missing \<open>Declaration\<close> (section 3), here \<open>decl\<close>: kind, qualified name,
  signature text, the line range of the header, the line range of the body (section
  4.3 counts a change in the body as touching the declaration), the range of an existing
  documentation comment with the byte offsets it occupies (absent if undocumented), the
  byte offset of the header line, where a new comment is inserted, and the exported flag.
\<close>

record decl =
  decl_kind :: declaration_kind
  qualified_name :: string
  signature_text :: string
  header_range :: line_range
  body_range :: line_range
  doc_range :: "line_range option"
  doc_bytes :: "(nat \<times> nat) option"
  header_offset :: nat
  is_exported :: bool

text \<open>Modelled from the spec: the missing \<open>ChangeSet\<close> (section 3), "per-file set of changed
  line ranges"; a file absent from the change set has no entry.
\<close>

type_synonym change_set = "string \<rightharpoonup> line_range list"

text \<open>Modelled from the spec: the missing \<open>CoverageVerdict\<close> (section 3), "one of Skip,
  Generate, Regenerate".
\<close>

datatype verdict = Skip | Generate | Regenerate

text \<open>Modelled from the spec: the global mode the missing orchestrator knows (section 4.6),
  full scan or incremental with the change set of the pull request.
\<close>

datatype scan_mode = FullScan | Incremental change_set

subsection \<open>Coverage Analyzer\<close>

text \<open>Modelled from the spec: when the missing Coverage Analyzer counts a declaration as
  touched (section 4.3, tie-break): "every declaration whose header range intersects
  counts as touched; declarations whose bodies (not headers) intersect are also touched".
\<close>

definition touched :: "line_range list \<Rightarrow> decl \<Rightarrow> bool" where
  "touched changed d =
     list_ex (\<lambda>r. intersects (header_range d) r \<or> intersects (body_range d) r) changed"

text \<open>Modelled from the spec: the verdict of the missing Coverage Analyzer in full-scan mode
  (section 4.3): "every declaration without an existing documentation comment receives
  verdict Generate; every declaration with one receives Skip".
\<close>

definition full_scan_verdict :: "decl \<Rightarrow> verdict" where
  "full_scan_verdict d = (case doc_range d of None \<Rightarrow> Generate | Some doc \<Rightarrow> Skip)"

text \<open>Modelled from the spec: the verdict of the missing Coverage Analyzer in incremental
  mode (section 4.3): a touched declaration with no existing doc receives Generate, one
  with an existing doc receives Regenerate; "a declaration untouched by the change set
  always receives Skip, regardless of documentation state"; "declarations in files absent
  from the ChangeSet are entirely Skip".
\<close>

definition incremental_verdict :: "change_set \<Rightarrow> string \<Rightarrow> decl \<Rightarrow> verdict" where
  "incremental_verdict changes path d =
     (case changes path of
        None \<Rightarrow> Skip
      | Some changed \<Rightarrow>
          if touched changed d
          then (case doc_range d of None \<Rightarrow> Generate | Some doc \<Rightarrow> Regenerate)
          else Skip)"

text \<open>Modelled from the spec: the missing Coverage Analyzer (section 4.3), one verdict per
  declaration in document order; "declarations excluded by file-level exclusion rules are
  always Skip".
\<close>

definition analyze ::
  "scan_mode \<Rightarrow> bool \<Rightarrow> string \<Rightarrow> decl list \<Rightarrow> (decl \<times> verdict) list" where
  "analyze mode file_excluded path decls =
     map (\<lambda>d. (d, if file_excluded then Skip
                  else (case mode of
                          FullScan \<Rightarrow> full_scan_verdict d
                        | Incremental changes \<Rightarrow> incremental_verdict changes path d)))
         decls"

subsection \<open>Patch Writer\<close>

text \<open>Modelled from the spec: one edit of the missing \<open>Patch\<close> (section 3), "(range,
  replacement-text)", the range in byte offsets of the original text, the start
  inclusive and the end exclusive; an insertion has an empty range.
\<close>

record patch =
  range_start :: nat
  range_end :: nat
  replacement :: string

text \<open>Modelled from the spec: the patch entry the missing Patch Writer produces for a
  declaration (section 4.5). Generate inserts the formatted comment "immediately before
  the declaration header"; Regenerate replaces "the existing documentation comment's
  exact original range", and with no such range recorded the comment is inserted.
\<close>

definition patch_for :: "decl \<Rightarrow> verdict \<Rightarrow> string \<Rightarrow> patch" where
  "patch_for d v comment =
     (case (v, doc_bytes d) of
        (Regenerate, Some (lo, hi)) \<Rightarrow>
          \<lparr>range_start = lo, range_end = hi, replacement = comment\<rparr>
      | _ \<Rightarrow> \<lparr>range_start = header_offset d, range_end = header_offset d,
               replacement = comment\<rparr>)"

text \<open>Modelled from the spec: one splice of the missing Patch Writer, the text with the range
  of the patch replaced.
\<close>

definition splice :: "string \<Rightarrow> patch \<Rightarrow> string" where
  "splice text p = take (range_start p) text @ replacement p @ drop (range_end p) text"

text \<open>Modelled from the spec: the invariant of the missing \<open>Patch\<close> (sections 3 and 7), "an
  ordered, non-overlapping set" of edits within the bounds of the text: from the offset
  \<open>pos\<close> on, each range starts at or after the end of the one before and ends within a
  text of \<open>n\<close> bytes.
\<close>

fun well_formed :: "nat \<Rightarrow> patch list \<Rightarrow> nat \<Rightarrow> bool" where
  "well_formed pos [] n = (pos \<le> n)"
| "well_formed pos (p # ps) n =
     (pos \<le> range_start p \<and> range_start p \<le> range_end p \<and> well_formed (range_end p) ps n)"

text \<open>Modelled from the spec: how the missing Patch Writer applies the patches of a file
  (section 4.5), "processing ranges from the end of the file backward to the start": of
  the patches in document order the last is spliced first.
\<close>

definition apply_backward :: "string \<Rightarrow> patch list \<Rightarrow> string" where
  "apply_backward text ps = foldl splice text (rev ps)"

text \<open>Modelled from the spec: the "single left-to-right splice" of section 3, the output
  assembled from the slices of the original text between the ranges and the replacement
  texts, from the offset \<open>pos\<close> on.
\<close>

fun rebuild :: "nat \<Rightarrow> patch list \<Rightarrow> string \<Rightarrow> string" where
  "rebuild pos [] text = drop pos text"
| "rebuild pos (p # ps) text =
     take (range_start p - pos) (drop pos text) @ replacement p @ rebuild (range_end p) ps text"

text \<open>Modelled from the spec: a byte offset of the original text lies outside all patched
  ranges (section 4.5, "output bytes outside any patched range").
\<close>

definition outside :: "patch list \<Rightarrow> nat \<Rightarrow> bool" where
  "outside ps i = list_all (\<lambda>p. \<not> (range_start p \<le> i \<and> i < range_end p)) ps"

text \<open>Modelled from the spec: where the byte at offset \<open>i\<close> of the original text stands in the
  output, counted from the output position of the offset \<open>pos\<close>: every patch before it
  moves it by the length of its replacement less the length of its range.
\<close>

fun output_offset :: "nat \<Rightarrow> patch list \<Rightarrow> nat \<Rightarrow> nat" where
  "output_offset pos [] i = i - pos"
| "output_offset pos (p # ps) i =
     (if i < range_start p then i - pos
      else (range_start p - pos) + length (replacement p) + output_offset (range_end p) ps i)"

text \<open>Modelled from the spec: the result of the missing Patch Writer for one file (sections
  4.5 and 7). "A file with zero applicable patches is not rewritten"; overlapping or
  out-of-bounds ranges are "detected before writing, the file is skipped"; otherwise the
  patches, merged in the order of their ranges, are applied to the original text.
\<close>

datatype write_result = NotRewritten | Rewritten string | Rejected string

definition write_patches :: "string \<Rightarrow> patch list \<Rightarrow> write_result" where
  "write_patches text ps =
     (let merged = sort_key range_start ps
      in if merged = [] then NotRewritten
         else if \<not> well_formed 0 merged (length text)
         then Rejected ''overlapping or out-of-bounds patch ranges''
         else Rewritten (apply_backward text merged))"

subsection \<open>Pipeline Orchestrator\<close>

text \<open>Modelled from the spec: a file the missing Traversal yields (sections 3 and 4.1), with
  its repository-relative path and its raw text; a file that could not be read has no
  text ("a single unreadable file is reported and skipped").
\<close>

record source_file =
  relative_path :: string
  raw_text :: "string option"

text \<open>Modelled from the spec: what the missing orchestrator is constructed with (section
  4.6): the Declaration Extractor, which parses a text into its declarations or fails
  with a reason (section 4.2); the Generation Client, which after its retries returns
  the documentation text of a declaration or a failure marker with a reason (section
  4.4); the global mode; and the file-level exclusion rule (section 4.3).
\<close>

record pipeline =
  extractor :: "string \<Rightarrow> string + decl list"
  generator :: "decl \<Rightarrow> string + string"
  scan :: scan_mode
  is_excluded :: "string \<Rightarrow> bool"

text \<open>Modelled from the spec: the per-file outcome of the missing \<open>PipelineRun\<close> (section 3),
  "unchanged / patched / failed", a patched file with its new text and a failed one with
  the reason.
\<close>

datatype file_outcome = Unchanged | Patched string | Failed string

text \<open>Modelled from the spec: the entry of one file in the report of the missing
  \<open>PipelineRun\<close> (sections 4.6 and 7): its outcome, and the declarations whose generation
  failed, each with the reason.
\<close>

record file_report =
  report_path :: string
  outcome :: file_outcome
  failed_declarations :: "(string \<times> string) list"

text \<open>Modelled from the spec: the missing \<open>PipelineRun\<close> (section 3), which "aggregates
  per-file outcomes and the flat list of all declarations processed".
\<close>

record pipeline_run =
  file_reports :: "file_report list"
  processed :: "decl list"

text \<open>Modelled from the spec: the generation step of the missing orchestrator for one file
  (sections 4.3, 4.4 and 4.6): each declaration whose verdict is not Skip, with its
  verdict and the result of the Generation Client for it.
\<close>

definition generation_results ::
  "pipeline \<Rightarrow> string \<Rightarrow> decl list \<Rightarrow> (decl \<times> verdict \<times> (string + string)) list" where
  "generation_results P path decls =
     map (\<lambda>(d, v). (d, v, generator P d))
       (filter (\<lambda>(d, v). v \<noteq> Skip) (analyze (scan P) (is_excluded P path) path decls))"

text \<open>Modelled from the spec: the patch set of a file in the missing orchestrator (sections
  4.5 and 7), one patch entry "for each declaration with a successful GenerationResult";
  a declaration whose generation failed is "excluded from that file's patch set".
\<close>

definition patch_set :: "(decl \<times> verdict \<times> (string + string)) list \<Rightarrow> patch list" where
  "patch_set results =
     concat (map (\<lambda>(d, v, r). case r of Inl reason \<Rightarrow> [] | Inr comment \<Rightarrow> [patch_for d v comment])
               results)"

text \<open>Modelled from the spec: the declarations of a file whose generation failed, as the
  missing orchestrator reports them (section 7), each by its qualified name "with
  reasons".
\<close>

definition generation_failures :: "(decl \<times> verdict \<times> (string + string)) list \<Rightarrow> (string \<times> string) list" where
  "generation_failures results =
     concat (map (\<lambda>(d, v, r). case r of Inl reason \<Rightarrow> [(qualified_name d, reason)] | Inr comment \<Rightarrow> [])
               results)"

text \<open>Modelled from the spec: the missing orchestrator on one file (sections 4.2 to 4.6 and
  7). An unreadable file and a parse failure make the file failed, with the reason; of a
  parsed file the patch set is written, no patch leaving the file unchanged ("not
  reported as changed") and rejected patches making it failed ("the file is skipped and
  reported as failed"); the declarations whose generation failed are recorded, and "the
  file may still be patched for its other declarations".
\<close>

definition process_file :: "pipeline \<Rightarrow> source_file \<Rightarrow> file_report \<times> decl list" where
  "process_file P f =
     (case raw_text f of
        None \<Rightarrow>
          (\<lparr>report_path = relative_path f, outcome = Failed ''unreadable file'',
            failed_declarations = []\<rparr>, [])
      | Some text \<Rightarrow>
          (case extractor P text of
             Inl reason \<Rightarrow>
               (\<lparr>report_path = relative_path f,
                 outcome = Failed (''failed to analyze: '' @ reason),
                 failed_declarations = []\<rparr>, [])
           | Inr decls \<Rightarrow>
               (let results = generation_results P (relative_path f) decls
                in (\<lparr>report_path = relative_path f,
                     outcome = (case write_patches text (patch_set results) of
                                  NotRewritten \<Rightarrow> Unchanged
                                | Rewritten new_text \<Rightarrow> Patched new_text
                                | Rejected reason \<Rightarrow> Failed reason),
                     failed_declarations = generation_failures results\<rparr>, decls))))"

text \<open>Modelled from the spec: the missing orchestrator across the files (section 4.6), which
  "sequences per file, then across files, then aggregates into a PipelineRun": the files
  are taken in order and the report of each is added to the run.
\<close>

fun run_files :: "pipeline \<Rightarrow> pipeline_run \<Rightarrow> source_file list \<Rightarrow> pipeline_run" where
  "run_files P run [] = run"
| "run_files P run (f # fs) =
     (case process_file P f of
        (report, decls) \<Rightarrow>
          run_files P \<lparr>file_reports = file_reports run @ [report],
                       processed = processed run @ decls\<rparr> fs)"

text \<open>Modelled from the spec: the fatal errors of section 7, which alone abort the run of the
  missing orchestrator: "unreadable/missing root directory, missing required
  generation-backend credentials".
\<close>

datatype fatal = MissingCredentials | UnreadableRoot

text \<open>Modelled from the spec: a run of the missing orchestrator (sections 4.6 and 7), given
  whether the credentials are present and the files of the traversal, or none when the
  root directory is unreadable.
\<close>

definition run_pipeline :: "pipeline \<Rightarrow> bool \<Rightarrow> source_file list option \<Rightarrow> fatal + pipeline_run" where
  "run_pipeline P credentials traversal =
     (if \<not> credentials then Inl MissingCredentials
      else (case traversal of
              None \<Rightarrow> Inl UnreadableRoot
            | Some fs \<Rightarrow> Inr (run_files P \<lparr>file_reports = [], processed = []\<rparr> fs)))"

subsection \<open>A pipeline for concrete runs\<close>

text \<open>
  A stub extractor that rejects the one text \<open>function (\<close> and finds in every other text
  one undocumented function \<open>add\<close> at its start, on lines 1 to 3, and a stub generator that
  returns one fixed comment.
\<close>

definition demo_decl :: decl where
  "demo_decl =
     \<lparr>decl_kind = Function, qualified_name = ''add'', signature_text = ''add(a, b)'',
      header_range = \<lparr>first_line = 1, last_line = 1\<rparr>,
      body_range = \<lparr>first_line = 1, last_line = 3\<rparr>,
      doc_range = None, doc_bytes = None, header_offset = 0, is_exported = True\<rparr>"

definition demo_pipeline :: pipeline where
  "demo_pipeline =
     \<lparr>extractor = (\<lambda>t. if t = ''function ('' then Inl ''syntax error'' else Inr [demo_decl]),
      generator = (\<lambda>d. Inr ''/** Adds two numbers. */ ''),
      scan = FullScan,
      is_excluded = (\<lambda>p. False)\<rparr>"

section \<open>Properties of GitManager\<close>

text \<open>
  C5: constructing the GitManager throws if and only if \<open>GITHUB_ACCESS_TOKEN\<close> is unset
  or empty, the error being \<open>Error('GITHUB_ACCESS_TOKEN is not set')\<close>; with a non-empty
  token the construction succeeds and the client is initialised with that token.
\<close>

theorem GitManager_throws_iff_token_missing:
  "((\<exists>e. GitManager vars repo = Inl e) \<longleftrightarrow>
      (vars ''GITHUB_ACCESS_TOKEN'' = None \<or> vars ''GITHUB_ACCESS_TOKEN'' = Some []))
   \<and> (vars ''GITHUB_ACCESS_TOKEN'' = None \<or> vars ''GITHUB_ACCESS_TOKEN'' = Some []
        \<longrightarrow> GitManager vars repo = Inl (Error ''GITHUB_ACCESS_TOKEN is not set''))
   \<and> (\<forall>token. vars ''GITHUB_ACCESS_TOKEN'' = Some token \<and> token \<noteq> []
        \<longrightarrow> GitManager vars repo = Inr \<lparr>gm_repository = repo, octokit_auth = token\<rparr>)"
  by (cases "vars ''GITHUB_ACCESS_TOKEN''") (auto simp: GitManager_def)

theorem GitManager_throws_iff_token_missing_witness:
  "GitManager Map.empty demo_repository = Inl (Error ''GITHUB_ACCESS_TOKEN is not set'')
   \<and> GitManager [''GITHUB_ACCESS_TOKEN'' \<mapsto> ''''] demo_repository = Inl (Error ''GITHUB_ACCESS_TOKEN is not set'')
   \<and> GitManager [''GITHUB_ACCESS_TOKEN'' \<mapsto> ''ghp_token''] demo_repository
       = Inr \<lparr>gm_repository = demo_repository, octokit_auth = ''ghp_token''\<rparr>"
  using GitManager_throws_iff_token_missing [of Map.empty demo_repository]
    GitManager_throws_iff_token_missing [of "[''GITHUB_ACCESS_TOKEN'' \<mapsto> '''']" demo_repository]
    GitManager_throws_iff_token_missing [of "[''GITHUB_ACCESS_TOKEN'' \<mapsto> ''ghp_token'']" demo_repository]
  by simp

text \<open>
  C4: when listing the pull requests of the head branch resolves with at least one pull
  request, \<open>createPullRequest\<close> returns normally having sent the list request only;
  a create request is sent only when the list resolved empty, and no reviewer request is
  sent unless it did.
\<close>

theorem createPullRequest_existing_pr:
  fixes api :: "'w octokit"
  assumes "pulls_list api (owner (gm_repository this)) (name (gm_repository this)) (head options)
             (remote g) = (listed, w1)"
  shows "(\<forall>prs. listed = Inr prs \<and> prs \<noteq> [] \<longrightarrow>
            createPullRequest api this options g =
              (Inr (), \<lparr>calls = calls g @ [PullsList (owner (gm_repository this))
                          (name (gm_repository this)) (head options)], remote = w1\<rparr>))
         \<and> (list_ex is_PullsCreate (new_calls g (snd (createPullRequest api this options g)))
              \<longrightarrow> listed = Inr [])
         \<and> (listed \<noteq> Inr [] \<longrightarrow>
              \<not> list_ex is_PullsRequestReviewers
                  (new_calls g (snd (createPullRequest api this options g))))"
  using assms
  by (cases listed) (auto simp: createPullRequest_def send_def new_calls_def Let_def split: prod.splits sum.splits)

theorem createPullRequest_existing_pr_witness:
  "createPullRequest (stub_api (Inr None) (Inr ()) [7] ''nyd'') demo_manager
       (demo_options (Some [''alice''])) fresh
     = (Inr (), \<lparr>calls = [PullsList ''nydiokar'' (Some ''autodoc'') ''docs''], remote = 1\<rparr>)
   \<and> list_ex is_PullsCreate (new_calls fresh (snd (createPullRequest
         (stub_api (Inr None) (Inr ()) [] ''nyd'') demo_manager (demo_options None) fresh)))
   \<and> \<not> list_ex is_PullsRequestReviewers (new_calls fresh (snd (createPullRequest
         (stub_api (Inr None) (Inr ()) [7] ''nyd'') demo_manager
         (demo_options (Some [''alice''])) fresh)))"
proof -
  have a: "pulls_list (stub_api (Inr None) (Inr ()) [7] ''nyd'') (owner (gm_repository demo_manager))
             (name (gm_repository demo_manager)) (head (demo_options (Some [''alice''])))
             (remote fresh) = (Inr [7], 1)"
    by (simp add: stub_api_def fresh_def)
  have b: "list_ex is_PullsCreate (new_calls fresh (snd (createPullRequest
         (stub_api (Inr None) (Inr ()) [] ''nyd'') demo_manager (demo_options None) fresh)))"
    by (simp add: createPullRequest_def Let_def send_def new_calls_def stub_api_def demo_manager_def demo_repository_def
        demo_options_def fresh_def)
  show ?thesis
    using createPullRequest_existing_pr [OF a] b
    by (simp add: new_calls_def demo_manager_def demo_repository_def demo_options_def fresh_def)
qed

text \<open>
  C9: after the pull request is created, reviews are requested from exactly the
  configured reviewers whose trimmed name (white space and line terminators stripped
  from both ends, the Unicode ones included) differs from the authenticated login. With no
  reviewers (absent or empty) nothing further is sent, not even the lookup of the
  authenticated user; when every reviewer is the author, or the lookup fails, no reviewer
  request is sent.
\<close>

theorem createPullRequest_reviewers_exclude_author:
  fixes api :: "'w octokit"
  assumes listed: "pulls_list api (owner (gm_repository this)) (name (gm_repository this))
             (head options) (remote g) = (Inr [], w1)"
    and created: "pulls_create api (owner (gm_repository this)) (name (gm_repository this))
             (title options) (body options) (head options) (base options) (labels options) w1
           = (Inr pr_number, w2)"
    and user: "users_getAuthenticated api w2 = (authenticated, w3)"
  defines "sent \<equiv> calls g @
             [PullsList (owner (gm_repository this)) (name (gm_repository this)) (head options),
              PullsCreate (owner (gm_repository this)) (name (gm_repository this)) (title options)
                (body options) (head options) (base options) (labels options)]"
  shows "(reviewers options = None \<or> reviewers options = Some [] \<longrightarrow>
            createPullRequest api this options g = (Inr (), \<lparr>calls = sent, remote = w2\<rparr>))
         \<and> (\<forall>rs e. reviewers options = Some rs \<and> rs \<noteq> [] \<and> authenticated = Inl e \<longrightarrow>
            createPullRequest api this options g
              = (Inl e, \<lparr>calls = sent @ [UsersGetAuthenticated], remote = w3\<rparr>))
         \<and> (\<forall>rs prAuthor. reviewers options = Some rs \<and> rs \<noteq> [] \<and> authenticated = Inr prAuthor
               \<and> filter (\<lambda>reviewer. trim reviewer \<noteq> prAuthor) rs = [] \<longrightarrow>
            createPullRequest api this options g
              = (Inr (), \<lparr>calls = sent @ [UsersGetAuthenticated], remote = w3\<rparr>))
         \<and> (\<forall>rs prAuthor. reviewers options = Some rs \<and> rs \<noteq> [] \<and> authenticated = Inr prAuthor
               \<and> filter (\<lambda>reviewer. trim reviewer \<noteq> prAuthor) rs \<noteq> [] \<longrightarrow>
            createPullRequest api this options g
              = send (PullsRequestReviewers (owner (gm_repository this))
                        (name (gm_repository this)) pr_number
                        (filter (\<lambda>reviewer. trim reviewer \<noteq> prAuthor) rs))
                     (pulls_requestReviewers api (owner (gm_repository this))
                        (name (gm_repository this)) pr_number
                        (filter (\<lambda>reviewer. trim reviewer \<noteq> prAuthor) rs))
                     \<lparr>calls = sent @ [UsersGetAuthenticated], remote = w3\<rparr>)"
  using listed created user unfolding sent_def
  by (auto simp: createPullRequest_def requestReviews_def send_def Let_def)

theorem createPullRequest_reviewers_exclude_author_witness:
  "createPullRequest (stub_api (Inr None) (Inr ()) [] ''nyd'') demo_manager
       (demo_options (Some ['' nyd '', ''alice'', ''nyd'', ''bob ''])) fresh
     = (Inr (), \<lparr>calls = [PullsList ''nydiokar'' (Some ''autodoc'') ''docs'',
           PullsCreate ''nydiokar'' (Some ''autodoc'') ''JSDoc Generation''
             ''Automated JSDoc generation for the codebase'' ''docs'' ''develop''
             (Some [''documentation'', ''automated-pr'']),
           UsersGetAuthenticated,
           PullsRequestReviewers ''nydiokar'' (Some ''autodoc'') 1 [''alice'', ''bob '']],
         remote = 4\<rparr>)
   \<and> createPullRequest (stub_api (Inr None) (Inr ()) [] ''nyd'') demo_manager
       (demo_options (Some [''nyd'', '' nyd''])) fresh
     = (Inr (), \<lparr>calls = [PullsList ''nydiokar'' (Some ''autodoc'') ''docs'',
           PullsCreate ''nydiokar'' (Some ''autodoc'') ''JSDoc Generation''
             ''Automated JSDoc generation for the codebase'' ''docs'' ''develop''
             (Some [''documentation'', ''automated-pr'']),
           UsersGetAuthenticated],
         remote = 3\<rparr>)
   \<and> createPullRequest (stub_api (Inr None) (Inr ()) [] ''nyd'') demo_manager
       (demo_options None) fresh
     = (Inr (), \<lparr>calls = [PullsList ''nydiokar'' (Some ''autodoc'') ''docs'',
           PullsCreate ''nydiokar'' (Some ''autodoc'') ''JSDoc Generation''
             ''Automated JSDoc generation for the codebase'' ''docs'' ''develop''
             (Some [''documentation'', ''automated-pr''])],
         remote = 2\<rparr>)
   \<and> createPullRequest (stub_api (Inr None) (Inr ()) [] ''nyd'') demo_manager
       (demo_options (Some [[CHR ''n'', CHR ''y'', CHR ''d'', CHR 0xC2, CHR 0xA0], ''alice''])) fresh
     = (Inr (), \<lparr>calls = [PullsList ''nydiokar'' (Some ''autodoc'') ''docs'',
           PullsCreate ''nydiokar'' (Some ''autodoc'') ''JSDoc Generation''
             ''Automated JSDoc generation for the codebase'' ''docs'' ''develop''
             (Some [''documentation'', ''automated-pr'']),
           UsersGetAuthenticated,
           PullsRequestReviewers ''nydiokar'' (Some ''autodoc'') 1 [''alice'']],
         remote = 4\<rparr>)"
proof -
  let ?api = "stub_api (Inr None) (Inr ()) [] ''nyd''"
  have l: "pulls_list ?api (owner (gm_repository demo_manager)) (name (gm_repository demo_manager))
             (head (demo_options rs)) (remote fresh) = (Inr [], 1)" for rs
    by (simp add: stub_api_def fresh_def)
  have c: "pulls_create ?api (owner (gm_repository demo_manager))
             (name (gm_repository demo_manager)) (title (demo_options rs)) (body (demo_options rs))
             (head (demo_options rs)) (base (demo_options rs)) (labels (demo_options rs)) 1
           = (Inr 1, 2)" for rs
    by (simp add: stub_api_def)
  have u: "users_getAuthenticated ?api 2 = (Inr ''nyd'', 3)"
    by (simp add: stub_api_def)
  have t: "trim '' nyd '' = ''nyd''" "trim ''alice'' = ''alice''" "trim ''nyd'' = ''nyd''"
    "trim ''bob '' = ''bob''" "trim '' nyd'' = ''nyd''"
    "trim [CHR ''n'', CHR ''y'', CHR ''d'', CHR 0xC2, CHR 0xA0] = ''nyd''"
    by (simp_all add: trim_def WhiteSpace_def)
  show ?thesis
    using createPullRequest_reviewers_exclude_author [OF l c u,
        of "Some ['' nyd '', ''alice'', ''nyd'', ''bob '']"]
      createPullRequest_reviewers_exclude_author [OF l c u, of "Some [''nyd'', '' nyd'']"]
      createPullRequest_reviewers_exclude_author [OF l c u, of None]
      createPullRequest_reviewers_exclude_author [OF l c u,
        of "Some [[CHR ''n'', CHR ''y'', CHR ''d'', CHR 0xC2, CHR 0xA0], ''alice'']"]
    by (simp add: t send_def stub_api_def demo_manager_def demo_repository_def demo_options_def fresh_def)
qed

text \<open>
  C8, as the code has it: \<open>commitFile\<close> reads the file on the branch first. A read
  rejected with status 404 is followed by a write without \<open>sha\<close>, whose outcome is the
  outcome of \<open>commitFile\<close> (it succeeds when that write succeeds); a read rejected with any
  other status is rethrown with nothing else sent; a successful read is followed by a
  write with the retrieved \<open>sha\<close>, and \<open>commitFile\<close> succeeds when that write does. The same
  handler covers the write: a write rejected with 404 is retried without \<open>sha\<close>, any other
  rejection is rethrown.
\<close>

theorem commitFile_create_update_propagate:
  fixes api :: "'w octokit" and base64 :: "string \<Rightarrow> string" and content message :: string
  assumes "repos_getContent api (owner (gm_repository this)) (name (gm_repository this))
             (posix filePath) branchName (remote g) = (got, w1)"
  defines "g1 \<equiv> \<lparr>calls = calls g @ [ReposGetContent (owner (gm_repository this))
                     (name (gm_repository this)) (posix filePath) branchName], remote = w1\<rparr>"
  defines "put \<equiv> (\<lambda>sha. send (ReposCreateOrUpdateFileContents (owner (gm_repository this))
                     (name (gm_repository this)) (posix filePath) message (base64 content) sha
                     branchName)
                   (repos_createOrUpdateFileContents api (owner (gm_repository this))
                     (name (gm_repository this)) (posix filePath) message (base64 content) sha
                     branchName))"
  shows "(\<forall>e. got = Inl e \<and> status e = Some 404 \<longrightarrow>
            commitFile api base64 this branchName filePath content message g = put None g1)
         \<and> (\<forall>e. got = Inl e \<and> status e \<noteq> Some 404 \<longrightarrow>
            commitFile api base64 this branchName filePath content message g = (Inl e, g1))
         \<and> (\<forall>sha g2. got = Inr sha \<and> put sha g1 = (Inr (), g2) \<longrightarrow>
            commitFile api base64 this branchName filePath content message g = (Inr (), g2))
         \<and> (\<forall>sha e g2. got = Inr sha \<and> put sha g1 = (Inl e, g2) \<and> status e \<noteq> Some 404 \<longrightarrow>
            commitFile api base64 this branchName filePath content message g = (Inl e, g2))
         \<and> (\<forall>sha e g2. got = Inr sha \<and> put sha g1 = (Inl e, g2) \<and> status e = Some 404 \<longrightarrow>
            commitFile api base64 this branchName filePath content message g = put None g2)"
  using assms(1) unfolding g1_def put_def
  by (auto simp: commitFile_def send_def Let_def split: prod.splits sum.splits)

theorem commitFile_create_update_propagate_witness:
  "commitFile (stub_api (Inl (RequestError 404)) (Inr ()) [] ''nyd'') id
        demo_manager ''docs'' (''src'' @ [CHR 0x5C] @ ''cli.ts'') ''text'' ''msg'' fresh
      = (Inr (),
         \<lparr>calls = [ReposGetContent ''nydiokar'' (Some ''autodoc'') ''src/cli.ts'' ''docs'',
                   ReposCreateOrUpdateFileContents ''nydiokar'' (Some ''autodoc'') ''src/cli.ts''
                     ''msg'' ''text'' None ''docs''],
          remote = 2\<rparr>)
   \<and> commitFile (stub_api (Inl (RequestError 500)) (Inr ()) [] ''nyd'') id
        demo_manager ''docs'' ''src/cli.ts'' ''text'' ''msg'' fresh
      = (Inl (RequestError 500),
         \<lparr>calls = [ReposGetContent ''nydiokar'' (Some ''autodoc'') ''src/cli.ts'' ''docs''],
          remote = 1\<rparr>)
   \<and> commitFile (stub_api (Inr (Some ''3f2a'')) (Inr ()) [] ''nyd'') id
        demo_manager ''docs'' ''src/cli.ts'' ''text'' ''msg'' fresh
      = (Inr (),
         \<lparr>calls = [ReposGetContent ''nydiokar'' (Some ''autodoc'') ''src/cli.ts'' ''docs'',
                   ReposCreateOrUpdateFileContents ''nydiokar'' (Some ''autodoc'') ''src/cli.ts''
                     ''msg'' ''text'' (Some ''3f2a'') ''docs''],
          remote = 2\<rparr>)"
proof -
  let ?m = demo_manager
  have p: "posix (''src'' @ [CHR 0x5C] @ ''cli.ts'') = ''src/cli.ts''" "posix ''src/cli.ts'' = ''src/cli.ts''"
    by (simp_all add: posix_def)
  have a: "repos_getContent (stub_api (Inl (RequestError 404)) (Inr ()) [] ''nyd'')
             (owner (gm_repository ?m)) (name (gm_repository ?m)) (posix (''src'' @ [CHR 0x5C] @ ''cli.ts'')) ''docs''
             (remote fresh) = (Inl (RequestError 404), 1)"
    by (simp add: stub_api_def fresh_def)
  have b: "repos_getContent (stub_api (Inl (RequestError 500)) (Inr ()) [] ''nyd'')
             (owner (gm_repository ?m)) (name (gm_repository ?m)) (posix ''src/cli.ts'') ''docs''
             (remote fresh) = (Inl (RequestError 500), 1)"
    by (simp add: stub_api_def fresh_def)
  have c: "repos_getContent (stub_api (Inr (Some ''3f2a'')) (Inr ()) [] ''nyd'')
             (owner (gm_repository ?m)) (name (gm_repository ?m)) (posix ''src/cli.ts'') ''docs''
             (remote fresh) = (Inr (Some ''3f2a''), 1)"
    by (simp add: stub_api_def fresh_def)
  show ?thesis
    using commitFile_create_update_propagate [where message = "''msg''" and ?base64.0 = id and content = "''text''", OF a]
      commitFile_create_update_propagate [where message = "''msg''" and ?base64.0 = id and content = "''text''", OF b]
      commitFile_create_update_propagate [where message = "''msg''" and ?base64.0 = id and content = "''text''", OF c]
    by (simp add: posix_def send_def stub_api_def demo_manager_def demo_repository_def fresh_def)
qed

text \<open>
  The read is rejected with 404 and the write that follows with 422: \<open>commitFile\<close> has
  sent the write without \<open>sha\<close>, and throws.
\<close>

theorem commitFile_404_create_fails_counterexample:
  "fst (repos_getContent (stub_api (Inl (RequestError 404)) (Inl (RequestError 422)) [] ''nyd'')
          ''nydiokar'' (Some ''autodoc'') ''src/cli.ts'' ''docs'' 0) = Inl (RequestError 404)
   \<and> commitFile (stub_api (Inl (RequestError 404)) (Inl (RequestError 422)) [] ''nyd'') id
        demo_manager ''docs'' ''src/cli.ts'' ''text'' ''Generated JSDoc comments'' fresh
      = (Inl (RequestError 422),
         \<lparr>calls = [ReposGetContent ''nydiokar'' (Some ''autodoc'') ''src/cli.ts'' ''docs'',
                   ReposCreateOrUpdateFileContents ''nydiokar'' (Some ''autodoc'') ''src/cli.ts''
                     ''Generated JSDoc comments'' ''text'' None ''docs''],
          remote = 2\<rparr>)"
  by (simp add: commitFile_def send_def stub_api_def demo_manager_def demo_repository_def fresh_def posix_def Let_def)

section \<open>Properties of Configuration\<close>

lemma upper_T: "upper c = CHR ''T'' \<longleftrightarrow> c = CHR ''t'' \<or> c = CHR ''T''"
  by (auto simp: upper_def split: if_splits)

lemma toUpperCase_T: "toUpperCase v = ''T'' \<longleftrightarrow> v = ''t'' \<or> v = ''T''"
  by (cases v) (auto simp: toUpperCase_def upper_T)

lemma loadConfiguration_flags:
  assumes "loadConfiguration h this = Inr c"
  shows "generateJsDoc c = if_truthy (env h ''INPUT_JSDOC'') (\<lambda>v. toUpperCase v = ''T'') True"
    and "generateReadme c = if_truthy (env h ''INPUT_README'') (\<lambda>v. toUpperCase v = ''T'') True"
    and "excludedDirectories c = parseCommaSeparatedInput (env h ''INPUT_EXCLUDED_DIRECTORIES'')
           [''node_modules'', ''dist'', ''test'']"
    and "excludedFiles c = excludedFiles this"
  using assms
  by (auto simp: loadConfiguration_def Let_def split: sum.splits)

text \<open>
  C6, as the code has it: when the construction succeeds, \<open>generateJsDoc\<close> is true if and
  only if \<open>INPUT_JSDOC\<close> is unset, or empty, or its upper-case form is the single letter
  \<open>T\<close> (the value is \<open>t\<close> or \<open>T\<close>), and \<open>generateReadme\<close> likewise for \<open>INPUT_README\<close>; every other
  value yields false.
\<close>

theorem Configuration_mode_flags:
  assumes "Configuration h = Inr c"
  shows "(generateJsDoc c \<longleftrightarrow>
            env h ''INPUT_JSDOC'' = None \<or> env h ''INPUT_JSDOC'' = Some []
            \<or> (\<exists>v. env h ''INPUT_JSDOC'' = Some v \<and> toUpperCase v = ''T''))
         \<and> (generateReadme c \<longleftrightarrow>
            env h ''INPUT_README'' = None \<or> env h ''INPUT_README'' = Some []
            \<or> (\<exists>v. env h ''INPUT_README'' = Some v \<and> toUpperCase v = ''T''))
         \<and> (\<forall>v. toUpperCase v = ''T'' \<longleftrightarrow> v = ''t'' \<or> v = ''T'')"
proof -
  from assms have l: "loadConfiguration h (field_initialisers (getRepoRoot h)) = Inr c"
    by (simp add: Configuration_def)
  have j: "generateJsDoc c \<longleftrightarrow>
            env h ''INPUT_JSDOC'' = None \<or> env h ''INPUT_JSDOC'' = Some []
            \<or> (\<exists>v. env h ''INPUT_JSDOC'' = Some v \<and> toUpperCase v = ''T'')"
    unfolding loadConfiguration_flags(1) [OF l]
    by (cases "env h ''INPUT_JSDOC''") auto
  have r: "generateReadme c \<longleftrightarrow>
            env h ''INPUT_README'' = None \<or> env h ''INPUT_README'' = Some []
            \<or> (\<exists>v. env h ''INPUT_README'' = Some v \<and> toUpperCase v = ''T'')"
    unfolding loadConfiguration_flags(2) [OF l]
    by (cases "env h ''INPUT_README''") auto
  from j r toUpperCase_T show ?thesis by blast
qed

lemma demo_Configuration_succeeds:
  "e ''INPUT_ROOT_DIRECTORY'' = Some ''src'' \<Longrightarrow> \<not> isl (Configuration (demo_host e fs))"
  by (simp add: Configuration_def loadConfiguration_def demo_host_def Let_def)

theorem Configuration_mode_flags_witness:
  "\<not> generateJsDoc (projr (Configuration (demo_host
        [''INPUT_ROOT_DIRECTORY'' \<mapsto> ''src'', ''INPUT_JSDOC'' \<mapsto> ''true'',
         ''INPUT_README'' \<mapsto> ''t''] Map.empty)))
   \<and> generateReadme (projr (Configuration (demo_host
        [''INPUT_ROOT_DIRECTORY'' \<mapsto> ''src'', ''INPUT_JSDOC'' \<mapsto> ''true'',
         ''INPUT_README'' \<mapsto> ''t''] Map.empty)))
   \<and> \<not> generateJsDoc (projr (Configuration (demo_host
        [''INPUT_ROOT_DIRECTORY'' \<mapsto> ''src'', ''INPUT_JSDOC'' \<mapsto> ''F'',
         ''INPUT_README'' \<mapsto> ''yes''] Map.empty)))
   \<and> \<not> generateReadme (projr (Configuration (demo_host
        [''INPUT_ROOT_DIRECTORY'' \<mapsto> ''src'', ''INPUT_JSDOC'' \<mapsto> ''F'',
         ''INPUT_README'' \<mapsto> ''yes''] Map.empty)))
   \<and> generateJsDoc (projr (Configuration (demo_host
        [''INPUT_ROOT_DIRECTORY'' \<mapsto> ''src''] Map.empty)))"
proof -
  let ?h1 = "demo_host [''INPUT_ROOT_DIRECTORY'' \<mapsto> ''src'', ''INPUT_JSDOC'' \<mapsto> ''true'',
         ''INPUT_README'' \<mapsto> ''t''] Map.empty"
  let ?h2 = "demo_host [''INPUT_ROOT_DIRECTORY'' \<mapsto> ''src'', ''INPUT_JSDOC'' \<mapsto> ''F'',
         ''INPUT_README'' \<mapsto> ''yes''] Map.empty"
  let ?h3 = "demo_host [''INPUT_ROOT_DIRECTORY'' \<mapsto> ''src''] Map.empty"
  have 1: "Configuration ?h1 = Inr (projr (Configuration ?h1))"
    by (simp add: demo_Configuration_succeeds)
  have 2: "Configuration ?h2 = Inr (projr (Configuration ?h2))"
    by (simp add: demo_Configuration_succeeds)
  have 3: "Configuration ?h3 = Inr (projr (Configuration ?h3))"
    by (simp add: demo_Configuration_succeeds)
  have e: "env (demo_host e fs) = e" for e fs
    by (simp add: demo_host_def)
  show ?thesis
    using Configuration_mode_flags [OF 1] Configuration_mode_flags [OF 2]
      Configuration_mode_flags [OF 3]
    by (simp add: e)
qed

text \<open>
  \<open>INPUT_JSDOC\<close> and \<open>INPUT_README\<close> are set, to the empty string, whose upper-case form is
  not \<open>T\<close>: both flags are true.
\<close>

theorem Configuration_empty_flag_counterexample:
  "env (demo_host [''INPUT_ROOT_DIRECTORY'' \<mapsto> ''src'', ''INPUT_JSDOC'' \<mapsto> '''',
         ''INPUT_README'' \<mapsto> ''''] Map.empty) ''INPUT_JSDOC'' = Some ''''
   \<and> toUpperCase '''' \<noteq> ''T''
   \<and> map_sum id generateJsDoc (Configuration (demo_host
        [''INPUT_ROOT_DIRECTORY'' \<mapsto> ''src'', ''INPUT_JSDOC'' \<mapsto> '''',
         ''INPUT_README'' \<mapsto> ''''] Map.empty)) = Inr True
   \<and> map_sum id generateReadme (Configuration (demo_host
        [''INPUT_ROOT_DIRECTORY'' \<mapsto> ''src'', ''INPUT_JSDOC'' \<mapsto> '''',
         ''INPUT_README'' \<mapsto> ''''] Map.empty)) = Inr True"
  by (simp add: Configuration_def loadConfiguration_def demo_host_def Let_def toUpperCase_def)

lemma split_not_Nil: "split sep s \<noteq> []"
  by (induction s) (auto split: list.splits)

lemma split_without_sep: "sep \<notin> set x \<Longrightarrow> split sep x = [x]"
  by (induction x) auto

lemma split_append_sep: "sep \<notin> set x \<Longrightarrow> split sep (x @ sep # rest) = x # split sep rest"
  by (induction x) (auto split: list.splits)

lemma split_join:
  "fs \<noteq> [] \<Longrightarrow> \<forall>f\<in>set fs. sep \<notin> set f \<Longrightarrow> split sep (join [sep] fs) = fs"
  by (induction "[sep]" fs rule: join.induct) (auto simp: split_without_sep split_append_sep)

lemma join_Cons: "ys \<noteq> [] \<Longrightarrow> join sep (x # ys) = x @ sep @ join sep ys"
  by (cases ys) auto

lemma join_split: "join [sep] (split sep s) = s"
proof (induction s)
  case Nil
  then show ?case by simp
next
  case (Cons c cs)
  show ?case
  proof (cases "c = sep")
    case True
    with Cons show ?thesis by (simp add: join_Cons split_not_Nil)
  next
    case False
    obtain p ps where ps: "split sep cs = p # ps"
      using split_not_Nil [of sep cs] by (cases "split sep cs") auto
    with Cons False show ?thesis by (cases ps) auto
  qed
qed

lemma split_no_sep: "x \<in> set (split sep s) \<Longrightarrow> sep \<notin> set x"
  by (induction s arbitrary: x) (auto split: if_splits list.splits)

lemma strip_decompose: "\<exists>ls. set ls \<subseteq> set ws \<and> s = concat ls @ strip ws s"
proof (induction ws s rule: strip.induct)
  case (1 ws)
  have "set [] \<subseteq> set ws \<and> [] = concat [] @ strip ws []" by simp
  then show ?case by blast
next
  case (2 ws c cs)
  show ?case
  proof (cases "find (\<lambda>w. w \<noteq> [] \<and> take (length w) (c # cs) = w) ws")
    case None
    then have "set [] \<subseteq> set ws \<and> c # cs = concat [] @ strip ws (c # cs)" by simp
    then show ?thesis by blast
  next
    case (Some w)
    then have w: "w \<in> set ws" "w \<noteq> []" "take (length w) (c # cs) = w"
      by (auto simp: find_Some_iff)
    from 2 [OF Some] obtain ls where ls: "set ls \<subseteq> set ws"
      "drop (length w - 1) cs = concat ls @ strip ws (drop (length w - 1) cs)"
      by blast
    have "c # cs = take (length w) (c # cs) @ drop (length w) (c # cs)" by simp
    also have "drop (length w) (c # cs) = drop (length w - 1) cs"
      using w(2) by (cases w) simp_all
    finally have "c # cs = w @ drop (length w - 1) cs" using w(3) by simp
    with ls(2) have "c # cs = concat (w # ls) @ strip ws (drop (length w - 1) cs)"
      by simp
    moreover have "strip ws (c # cs) = strip ws (drop (length w - 1) cs)"
      using Some by simp
    moreover have "set (w # ls) \<subseteq> set ws" using w(1) ls(1) by simp
    ultimately show ?thesis by metis
  qed
qed

lemma strip_no_prefix:
  "w \<in> set ws \<Longrightarrow> w \<noteq> [] \<Longrightarrow> take (length w) (strip ws s) \<noteq> w"
proof (induction ws s rule: strip.induct)
  case (1 ws)
  then show ?case by simp
next
  case (2 ws c cs)
  show ?case
  proof (cases "find (\<lambda>w. w \<noteq> [] \<and> take (length w) (c # cs) = w) ws")
    case None
    then have "\<not> (w \<noteq> [] \<and> take (length w) (c # cs) = w)"
      using 2(2) by (auto simp: find_None_iff)
    with None 2(3) show ?thesis by simp
  next
    case (Some v)
    with 2(1) [OF Some 2(2) 2(3)] show ?thesis by simp
  qed
qed


lemma WhiteSpace_nonempty: "w \<in> set WhiteSpace \<Longrightarrow> w \<noteq> []"
  by (auto simp: WhiteSpace_def)

lemma trim_spec:
  "\<exists>ls rs. set ls \<subseteq> set WhiteSpace \<and> set rs \<subseteq> set WhiteSpace
      \<and> s = concat ls @ trim s @ concat rs
      \<and> (\<forall>w\<in>set WhiteSpace. take (length w) (trim s) \<noteq> w
                               \<and> take (length w) (rev (trim s)) \<noteq> rev w)"
proof -
  let ?s1 = "strip WhiteSpace s"
  let ?reversed = "map rev WhiteSpace"
  obtain ls where ls: "set ls \<subseteq> set WhiteSpace" "s = concat ls @ ?s1"
    using strip_decompose [of WhiteSpace s] by blast
  obtain ls' where ls': "set ls' \<subseteq> set ?reversed" "rev ?s1 = concat ls' @ strip ?reversed (rev ?s1)"
    using strip_decompose [of ?reversed "rev ?s1"] by blast
  let ?rs = "map rev (rev ls')"
  have t: "rev (trim s) = strip ?reversed (rev ?s1)"
    by (simp add: trim_def)
  have "?s1 = rev (concat ls' @ strip ?reversed (rev ?s1))"
    using ls'(2) by (metis rev_rev_ident)
  also have "\<dots> = trim s @ concat ?rs"
    by (simp add: trim_def rev_concat)
  finally have s1: "?s1 = trim s @ concat ?rs" .
  have rs: "set ?rs \<subseteq> set WhiteSpace"
    using ls'(1) by force
  have whole: "s = concat ls @ trim s @ concat ?rs"
    using ls(2) s1 by simp
  have clean: "take (length w) (trim s) \<noteq> w \<and> take (length w) (rev (trim s)) \<noteq> rev w"
    if w: "w \<in> set WhiteSpace" for w
  proof
    from w have n: "w \<noteq> []" by (rule WhiteSpace_nonempty)
    show "take (length w) (trim s) \<noteq> w"
    proof
      assume p: "take (length w) (trim s) = w"
      have "length (take (length w) (trim s)) = length w"
        by (simp only: p)
      then have "length w \<le> length (trim s)"
        by simp
      then have "take (length w) ?s1 = w"
        using p by (subst s1) simp
      with strip_no_prefix [OF w n, of s] show False by simp
    qed
    have "rev w \<in> set ?reversed" "rev w \<noteq> []" using w n by simp_all
    from strip_no_prefix [OF this, of "rev ?s1"]
    show "take (length w) (rev (trim s)) \<noteq> rev w"
      by (simp add: t)
  qed
  from ls(1) rs whole clean show ?thesis by blast
qed

text \<open>
  C7: when the construction succeeds, the excluded file names are \<open>['index.d.ts']\<close>; the
  excluded directory names are \<open>['node_modules', 'dist', 'test']\<close> when
  \<open>INPUT_EXCLUDED_DIRECTORIES\<close> is unset or empty, and otherwise the comma-separated items
  of its value, each trimmed of white space, the empty ones removed. The pieces of the
  split contain no comma and joined by commas give the value back; a trimmed string is
  the string without a prefix and a suffix of white-space characters (those of
  \<open>WhiteSpace\<close>, Unicode white space and line terminators included), and neither begins
  nor ends with one.
\<close>

theorem Configuration_excluded_lists:
  assumes "Configuration h = Inr c"
  shows "excludedFiles c = [''index.d.ts'']
     \<and> (env h ''INPUT_EXCLUDED_DIRECTORIES'' = None \<or> env h ''INPUT_EXCLUDED_DIRECTORIES'' = Some []
          \<longrightarrow> excludedDirectories c = [''node_modules'', ''dist'', ''test''])
     \<and> (\<forall>v. env h ''INPUT_EXCLUDED_DIRECTORIES'' = Some v \<and> v \<noteq> [] \<longrightarrow>
          excludedDirectories c = filter (\<lambda>item. item \<noteq> []) (map trim (split CHR '','' v)))
     \<and> (\<forall>items. items \<noteq> [] \<and> (\<forall>item\<in>set items. CHR '','' \<notin> set item) \<and> join '','' items \<noteq> []
          \<and> env h ''INPUT_EXCLUDED_DIRECTORIES'' = Some (join '','' items) \<longrightarrow>
          excludedDirectories c = filter (\<lambda>item. item \<noteq> []) (map trim items))
     \<and> (\<forall>v. join '','' (split CHR '','' v) = v \<and> (\<forall>item\<in>set (split CHR '','' v). CHR '','' \<notin> set item))
     \<and> (\<forall>s. \<exists>ls rs. set ls \<subseteq> set WhiteSpace \<and> set rs \<subseteq> set WhiteSpace
          \<and> s = concat ls @ trim s @ concat rs
          \<and> (\<forall>w\<in>set WhiteSpace. take (length w) (trim s) \<noteq> w
                                   \<and> take (length w) (rev (trim s)) \<noteq> rev w))"
proof -
  from assms have l: "loadConfiguration h (field_initialisers (getRepoRoot h)) = Inr c"
    by (simp add: Configuration_def)
  have f: "excludedFiles c = [''index.d.ts'']"
    using loadConfiguration_flags(4) [OF l] by (simp add: field_initialisers_def)
  note d = loadConfiguration_flags(3) [OF l]
  have a: "env h ''INPUT_EXCLUDED_DIRECTORIES'' = None \<or> env h ''INPUT_EXCLUDED_DIRECTORIES'' = Some []
          \<longrightarrow> excludedDirectories c = [''node_modules'', ''dist'', ''test'']"
    using d by (auto simp: parseCommaSeparatedInput_def)
  have b: "\<forall>v. env h ''INPUT_EXCLUDED_DIRECTORIES'' = Some v \<and> v \<noteq> [] \<longrightarrow>
          excludedDirectories c = filter (\<lambda>item. item \<noteq> []) (map trim (split CHR '','' v))"
    using d by (auto simp: parseCommaSeparatedInput_def)
  have c: "\<forall>items. items \<noteq> [] \<and> (\<forall>item\<in>set items. CHR '','' \<notin> set item) \<and> join '','' items \<noteq> []
          \<and> env h ''INPUT_EXCLUDED_DIRECTORIES'' = Some (join '','' items) \<longrightarrow>
          excludedDirectories c = filter (\<lambda>item. item \<noteq> []) (map trim items)"
    using b split_join [of _ "CHR '',''"] by auto
  have s: "\<forall>v. join '','' (split CHR '','' v) = v \<and> (\<forall>item\<in>set (split CHR '','' v). CHR '','' \<notin> set item)"
    using join_split [of "CHR '',''"] split_no_sep [of _ "CHR '',''"] by blast
  from f a b c s trim_spec show ?thesis by blast
qed

theorem Configuration_excluded_lists_witness:
  "excludedFiles (projr (Configuration (demo_host
        [''INPUT_ROOT_DIRECTORY'' \<mapsto> ''src'',
         ''INPUT_EXCLUDED_DIRECTORIES'' \<mapsto> '' node_modules, dist ,,test,  ''] Map.empty)))
     = [''index.d.ts'']
   \<and> excludedDirectories (projr (Configuration (demo_host
        [''INPUT_ROOT_DIRECTORY'' \<mapsto> ''src'',
         ''INPUT_EXCLUDED_DIRECTORIES'' \<mapsto> '' node_modules, dist ,,test,  ''] Map.empty)))
     = [''node_modules'', ''dist'', ''test'']
   \<and> excludedDirectories (projr (Configuration (demo_host
        [''INPUT_ROOT_DIRECTORY'' \<mapsto> ''src'',
         ''INPUT_EXCLUDED_DIRECTORIES'' \<mapsto> ''build, out dir''] Map.empty)))
     = [''build'', ''out dir'']
   \<and> excludedDirectories (projr (Configuration (demo_host
        [''INPUT_ROOT_DIRECTORY'' \<mapsto> ''src'', ''INPUT_EXCLUDED_DIRECTORIES'' \<mapsto> ''''] Map.empty)))
     = [''node_modules'', ''dist'', ''test'']
   \<and> excludedDirectories (projr (Configuration (demo_host
        [''INPUT_ROOT_DIRECTORY'' \<mapsto> ''src'',
         ''INPUT_EXCLUDED_DIRECTORIES'' \<mapsto>
           [CHR 0xC2, CHR 0xA0, CHR ''a'', CHR 0xC2, CHR 0xA0, CHR '','', CHR 0xC2, CHR 0xA0]] Map.empty)))
     = [''a'']"
proof -
  let ?h1 = "demo_host [''INPUT_ROOT_DIRECTORY'' \<mapsto> ''src'',
         ''INPUT_EXCLUDED_DIRECTORIES'' \<mapsto> '' node_modules, dist ,,test,  ''] Map.empty"
  let ?h2 = "demo_host [''INPUT_ROOT_DIRECTORY'' \<mapsto> ''src'',
         ''INPUT_EXCLUDED_DIRECTORIES'' \<mapsto> ''build, out dir''] Map.empty"
  let ?h3 = "demo_host [''INPUT_ROOT_DIRECTORY'' \<mapsto> ''src'',
         ''INPUT_EXCLUDED_DIRECTORIES'' \<mapsto> ''''] Map.empty"
  let ?h4 = "demo_host [''INPUT_ROOT_DIRECTORY'' \<mapsto> ''src'',
         ''INPUT_EXCLUDED_DIRECTORIES'' \<mapsto>
           [CHR 0xC2, CHR 0xA0, CHR ''a'', CHR 0xC2, CHR 0xA0, CHR '','', CHR 0xC2, CHR 0xA0]] Map.empty"
  have 1: "Configuration ?h1 = Inr (projr (Configuration ?h1))"
    by (simp add: demo_Configuration_succeeds)
  have 2: "Configuration ?h2 = Inr (projr (Configuration ?h2))"
    by (simp add: demo_Configuration_succeeds)
  have 3: "Configuration ?h3 = Inr (projr (Configuration ?h3))"
    by (simp add: demo_Configuration_succeeds)
  have 4: "Configuration ?h4 = Inr (projr (Configuration ?h4))"
    by (simp add: demo_Configuration_succeeds)
  have e: "env (demo_host e fs) = e" for e fs
    by (simp add: demo_host_def)
  have t: "trim '' node_modules'' = ''node_modules''" "trim '' dist '' = ''dist''"
    "trim '''' = ''''" "trim ''test'' = ''test''" "trim ''  '' = ''''"
    "trim ''build'' = ''build''" "trim '' out dir'' = ''out dir''"
    "trim [CHR 0xC2, CHR 0xA0, CHR ''a'', CHR 0xC2, CHR 0xA0] = ''a''"
    "trim [CHR 0xC2, CHR 0xA0] = []"
    by (simp_all add: trim_def WhiteSpace_def)
  from Configuration_excluded_lists [OF 1]
  have a: "excludedFiles (projr (Configuration ?h1)) = [''index.d.ts'']"
    and b: "excludedDirectories (projr (Configuration ?h1)) = [''node_modules'', ''dist'', ''test'']"
    by (simp_all add: e t)
  from Configuration_excluded_lists [OF 2]
  have c: "excludedDirectories (projr (Configuration ?h2)) = [''build'', ''out dir'']"
    by (simp add: e t)
  from Configuration_excluded_lists [OF 3]
  have d: "excludedDirectories (projr (Configuration ?h3)) = [''node_modules'', ''dist'', ''test'']"
    by (simp add: e)
  from Configuration_excluded_lists [OF 4]
  have f: "excludedDirectories (projr (Configuration ?h4)) = [''a'']"
    by (simp add: e t)
  from a b c d f show ?thesis by simp
qed

lemma member_child: "member (Some v) key = Inr r \<Longrightarrow> r = child v key"
  by (cases v) auto

lemma optional_member_child: "optional_member (Some v) key = child v key"
  by (cases v) auto

lemma optional_member_chain:
  "optional_member (optional_member x k1) k2
     = (case x of None \<Rightarrow> None
        | Some v \<Rightarrow> (case child v k1 of None \<Rightarrow> None | Some v' \<Rightarrow> child v' k2))"
  by (cases x) (auto simp: optional_member_child split: option.splits)

lemma workflow_dflt:
  assumes "member (Some workflow) ''on'' = Inr on"
    and "member on ''workflow_dispatch'' = Inr wd"
    and "member wd ''inputs'' = Inr inputs"
  shows "optional_member (optional_member inputs ''root_directory'') ''default''
           = declared_default workflow"
proof -
  from assms(1) have on: "on = child workflow ''on''" by (rule member_child)
  from assms(2) obtain v1 where v1: "on = Some v1" by (cases on) auto
  with assms(2) have wd: "wd = child v1 ''workflow_dispatch''" by (auto dest: member_child)
  from assms(3) obtain v2 where v2: "wd = Some v2" by (cases wd) auto
  with assms(3) have inputs: "inputs = child v2 ''inputs''" by (auto dest: member_child)
  show ?thesis
    using on v1 wd v2 inputs
    by (auto simp: declared_default_def optional_member_chain split: option.splits)
qed

lemma rootDirectoryFromWorkflow_missing:
  "files h (path_join h r ''.github/workflows/jsdoc-automation.yml'') = None \<Longrightarrow>
   rootDirectoryFromWorkflow h r
     = Inl (Error (''Workflow file not found at ''
                   @ path_join h r ''.github/workflows/jsdoc-automation.yml''))"
  by (simp add: rootDirectoryFromWorkflow_def)

lemma rootDirectoryFromWorkflow_parsed:
  assumes "files h (path_join h r ''.github/workflows/jsdoc-automation.yml'') = Some (Inr content)"
    and "yaml_parse h content = Inr workflow"
  shows "declared_default workflow = None \<Longrightarrow> isl (rootDirectoryFromWorkflow h r)"
    and "declared_default workflow = Some (YStr d) \<Longrightarrow> d \<noteq> [] \<Longrightarrow>
         rootDirectoryFromWorkflow h r
           = Inr \<lparr>absolute = path_resolve h r d, relative = stripLeadingSlashes d\<rparr>"
proof -
  assume n: "declared_default workflow = None"
  show "isl (rootDirectoryFromWorkflow h r)"
    using assms n
    by (auto simp: rootDirectoryFromWorkflow_def Let_def workflow_dflt split: sum.splits)
next
  assume s: "declared_default workflow = Some (YStr d)" "d \<noteq> []"
  obtain v1 where v1: "child workflow ''on'' = Some v1"
    using s by (cases "child workflow ''on''") (auto simp: declared_default_def)
  obtain v2 where v2: "child v1 ''workflow_dispatch'' = Some v2"
    using s v1 by (cases "child v1 ''workflow_dispatch''") (auto simp: declared_default_def)
  obtain v3 where v3: "child v2 ''inputs'' = Some v3"
    using s v1 v2 by (cases "child v2 ''inputs''") (auto simp: declared_default_def)
  have m1: "member (Some workflow) ''on'' = Inr (Some v1)"
    using v1 by (cases workflow) auto
  have m2: "member (Some v1) ''workflow_dispatch'' = Inr (Some v2)"
    using v2 by (cases v1) auto
  have m3: "member (Some v2) ''inputs'' = Inr (Some v3)"
    using v3 by (cases v2) auto
  have d: "optional_member (optional_member (Some v3) ''root_directory'') ''default''
             = Some (YStr d)"
    using workflow_dflt [OF m1 m2 m3] s by simp
  show "rootDirectoryFromWorkflow h r
           = Inr \<lparr>absolute = path_resolve h r d, relative = stripLeadingSlashes d\<rparr>"
    using assms s(2)
    by (simp add: rootDirectoryFromWorkflow_def Let_def m1 m2 m3 d)
qed

lemma loadConfiguration_rootDirectory:
  "loadConfiguration h this = Inr c \<Longrightarrow>
   if_truthy (env h ''INPUT_ROOT_DIRECTORY'')
                (\<lambda>rootDirectory.
                   Inr \<lparr>absolute = path_resolve h (repoRoot this) rootDirectory,
                        relative = stripLeadingSlashes rootDirectory\<rparr>)
                (rootDirectoryFromWorkflow h (repoRoot this)) = Inr rd
   \<Longrightarrow> rootDirectory c = Some rd"
  by (auto simp: loadConfiguration_def Let_def split: sum.splits)

lemma loadConfiguration_result:
  "isl (loadConfiguration h this) =
   isl (if_truthy (env h ''INPUT_ROOT_DIRECTORY'')
                (\<lambda>rootDirectory.
                   Inr \<lparr>absolute = path_resolve h (repoRoot this) rootDirectory,
                        relative = stripLeadingSlashes rootDirectory\<rparr>)
                (rootDirectoryFromWorkflow h (repoRoot this)))"
  by (auto simp: loadConfiguration_def Let_def split: sum.splits)

lemma loadConfiguration_error:
  "if_truthy (env h ''INPUT_ROOT_DIRECTORY'')
                (\<lambda>rootDirectory.
                   Inr \<lparr>absolute = path_resolve h (repoRoot this) rootDirectory,
                        relative = stripLeadingSlashes rootDirectory\<rparr>)
                (rootDirectoryFromWorkflow h (repoRoot this)) = Inl e
   \<Longrightarrow> loadConfiguration h this = Inl e"
  by (auto simp: loadConfiguration_def Let_def split: sum.splits)

lemma stripLeadingSlashes_spec:
  "v = takeWhile (\<lambda>c. c = CHR ''/'') v @ stripLeadingSlashes v
   \<and> list_all (\<lambda>c. c = CHR ''/'') (takeWhile (\<lambda>c. c = CHR ''/'') v)
   \<and> (stripLeadingSlashes v = [] \<or> hd (stripLeadingSlashes v) \<noteq> CHR ''/'')"
proof -
  have "stripLeadingSlashes v \<noteq> [] \<Longrightarrow> hd (stripLeadingSlashes v) \<noteq> CHR ''/''"
    unfolding stripLeadingSlashes_def using hd_dropWhile [of "\<lambda>c. c = CHR ''/''" v] by simp
  moreover have "list_all (\<lambda>c. c = CHR ''/'') (takeWhile (\<lambda>c. c = CHR ''/'') v)"
    by (auto simp: list_all_iff dest: set_takeWhileD)
  ultimately show ?thesis by (auto simp: stripLeadingSlashes_def)
qed

text \<open>
  C10, as the code has it: with \<open>INPUT_ROOT_DIRECTORY\<close> set to a non-empty value the
  construction succeeds and the relative root path is the value without its leading
  slashes. With the variable unset or empty the constructor falls back to the workflow
  file \<open>.github/workflows/jsdoc-automation.yml\<close> under the repository root: it throws when
  the file does not exist, it throws when the parsed file declares no default for the
  \<open>root_directory\<close> input, and with a declared non-empty string default the root
  directory is that default.
\<close>

theorem Configuration_root_directory:
  fixes h :: host
  defines "workflowPath \<equiv> path_join h (getRepoRoot h) ''.github/workflows/jsdoc-automation.yml''"
  shows "(\<forall>v. env h ''INPUT_ROOT_DIRECTORY'' = Some v \<and> v \<noteq> [] \<longrightarrow>
            (\<exists>c. Configuration h = Inr c
                \<and> rootDirectory c = Some \<lparr>absolute = path_resolve h (getRepoRoot h) v,
                                          relative = stripLeadingSlashes v\<rparr>))
     \<and> (env h ''INPUT_ROOT_DIRECTORY'' = None \<or> env h ''INPUT_ROOT_DIRECTORY'' = Some [] \<longrightarrow>
          (files h workflowPath = None \<longrightarrow>
             Configuration h = Inl (Error (''Workflow file not found at '' @ workflowPath)))
        \<and> (\<forall>content workflow. files h workflowPath = Some (Inr content)
               \<and> yaml_parse h content = Inr workflow \<and> declared_default workflow = None \<longrightarrow>
             isl (Configuration h))
        \<and> (\<forall>content workflow d. files h workflowPath = Some (Inr content)
               \<and> yaml_parse h content = Inr workflow
               \<and> declared_default workflow = Some (YStr d) \<and> d \<noteq> [] \<longrightarrow>
             (\<exists>c. Configuration h = Inr c
                 \<and> rootDirectory c = Some \<lparr>absolute = path_resolve h (getRepoRoot h) d,
                                           relative = stripLeadingSlashes d\<rparr>)))
     \<and> (\<forall>v. v = takeWhile (\<lambda>c. c = CHR ''/'') v @ stripLeadingSlashes v
            \<and> (stripLeadingSlashes v = [] \<or> hd (stripLeadingSlashes v) \<noteq> CHR ''/''))"
proof -
  let ?r = "getRepoRoot h"
  let ?init = "field_initialisers ?r"
  let ?sel = "if_truthy (env h ''INPUT_ROOT_DIRECTORY'')
                (\<lambda>rootDirectory.
                   Inr \<lparr>absolute = path_resolve h (repoRoot ?init) rootDirectory,
                        relative = stripLeadingSlashes rootDirectory\<rparr>)
                (rootDirectoryFromWorkflow h (repoRoot ?init))"
  have rr: "repoRoot ?init = ?r" by (simp add: field_initialisers_def)
  have ok: "\<exists>c. Configuration h = Inr c \<and> rootDirectory c = Some rd" if "?sel = Inr rd" for rd
  proof -
    from that have "\<not> isl (loadConfiguration h ?init)"
      by (simp add: loadConfiguration_result)
    then obtain c where c: "loadConfiguration h ?init = Inr c"
      by (cases "loadConfiguration h ?init") auto
    from c that have "rootDirectory c = Some rd" by (rule loadConfiguration_rootDirectory)
    with c show ?thesis by (auto simp: Configuration_def)
  qed
  have bad: "Configuration h = Inl e" if "?sel = Inl e" for e
    using that unfolding Configuration_def by (rule loadConfiguration_error)
  have bad': "isl (Configuration h)" if "isl ?sel"
    using that by (simp add: Configuration_def loadConfiguration_result)
  have 1: "\<forall>v. env h ''INPUT_ROOT_DIRECTORY'' = Some v \<and> v \<noteq> [] \<longrightarrow>
            (\<exists>c. Configuration h = Inr c
                \<and> rootDirectory c = Some \<lparr>absolute = path_resolve h ?r v,
                                          relative = stripLeadingSlashes v\<rparr>)"
    by (auto intro!: ok simp: rr)
  have fb: "?sel = rootDirectoryFromWorkflow h ?r"
    if "env h ''INPUT_ROOT_DIRECTORY'' = None \<or> env h ''INPUT_ROOT_DIRECTORY'' = Some []"
    using that by (auto simp: rr)
  have 2: "files h workflowPath = None \<longrightarrow>
             Configuration h = Inl (Error (''Workflow file not found at '' @ workflowPath))"
    if "env h ''INPUT_ROOT_DIRECTORY'' = None \<or> env h ''INPUT_ROOT_DIRECTORY'' = Some []"
    using fb [OF that] rootDirectoryFromWorkflow_missing [of h ?r] bad
    by (auto simp: workflowPath_def)
  have 3: "\<forall>content workflow. files h workflowPath = Some (Inr content)
               \<and> yaml_parse h content = Inr workflow \<and> declared_default workflow = None \<longrightarrow>
             isl (Configuration h)"
    if "env h ''INPUT_ROOT_DIRECTORY'' = None \<or> env h ''INPUT_ROOT_DIRECTORY'' = Some []"
    using fb [OF that] rootDirectoryFromWorkflow_parsed(1) [of h ?r] bad'
    by (auto simp: workflowPath_def)
  have 4: "\<forall>content workflow d. files h workflowPath = Some (Inr content)
               \<and> yaml_parse h content = Inr workflow
               \<and> declared_default workflow = Some (YStr d) \<and> d \<noteq> [] \<longrightarrow>
             (\<exists>c. Configuration h = Inr c
                 \<and> rootDirectory c = Some \<lparr>absolute = path_resolve h ?r d,
                                           relative = stripLeadingSlashes d\<rparr>)"
    if "env h ''INPUT_ROOT_DIRECTORY'' = None \<or> env h ''INPUT_ROOT_DIRECTORY'' = Some []"
    using fb [OF that] rootDirectoryFromWorkflow_parsed(2) [of h ?r] ok
    by (auto simp: workflowPath_def)
  from 1 2 3 4 stripLeadingSlashes_spec show ?thesis by blast
qed

theorem Configuration_root_directory_witness:
  "map_sum id rootDirectory (Configuration (demo_host
        [''INPUT_ROOT_DIRECTORY'' \<mapsto> ''//packages/core''] Map.empty))
     = Inr (Some \<lparr>absolute = ''/repo///packages/core'', relative = ''packages/core''\<rparr>)
   \<and> Configuration (demo_host Map.empty Map.empty)
     = Inl (Error ''Workflow file not found at /repo/.github/workflows/jsdoc-automation.yml'')
   \<and> isl (Configuration (demo_host Map.empty
        [''/repo/.github/workflows/jsdoc-automation.yml'' \<mapsto> Inr ''{}'']))
   \<and> map_sum id rootDirectory (Configuration (demo_host Map.empty
        [''/repo/.github/workflows/jsdoc-automation.yml'' \<mapsto> Inr ''workflow'']))
     = Inr (Some \<lparr>absolute = ''/repo/src'', relative = ''src''\<rparr>)"
proof -
  let ?wf = "''/repo/.github/workflows/jsdoc-automation.yml''"
  let ?h1 = "demo_host [''INPUT_ROOT_DIRECTORY'' \<mapsto> ''//packages/core''] Map.empty"
  let ?h2 = "demo_host Map.empty Map.empty"
  let ?h3 = "demo_host Map.empty [?wf \<mapsto> Inr ''{}'']"
  let ?h4 = "demo_host Map.empty [?wf \<mapsto> Inr ''workflow'']"
  have d: "declared_default demo_workflow = Some (YStr ''src'')"
    "declared_default (YMap []) = None"
    by (simp_all add: declared_default_def demo_workflow_def)
  have s: "stripLeadingSlashes ''//packages/core'' = ''packages/core''"
    "stripLeadingSlashes ''src'' = ''src''"
    by (simp_all add: stripLeadingSlashes_def)
  have 1: "\<exists>c. Configuration ?h1 = Inr c
      \<and> rootDirectory c = Some \<lparr>absolute = ''/repo///packages/core'', relative = ''packages/core''\<rparr>"
    using Configuration_root_directory [of ?h1]
    by (simp add: demo_host_def getRepoRoot_def s)
  have 2: "Configuration ?h2
     = Inl (Error ''Workflow file not found at /repo/.github/workflows/jsdoc-automation.yml'')"
    using Configuration_root_directory [of ?h2]
    by (simp add: demo_host_def getRepoRoot_def)
  have 3: "isl (Configuration ?h3)"
    using Configuration_root_directory [of ?h3]
    by (simp add: demo_host_def getRepoRoot_def d)
  have 4: "\<exists>c. Configuration ?h4 = Inr c
      \<and> rootDirectory c = Some \<lparr>absolute = ''/repo/src'', relative = ''src''\<rparr>"
    using Configuration_root_directory [of ?h4]
    by (simp add: demo_host_def getRepoRoot_def d s)
  from 1 2 3 4 show ?thesis by auto
qed

text \<open>
  \<open>INPUT_ROOT_DIRECTORY\<close> is set, to the empty string, and there is no workflow file: the
  constructor throws instead of taking the value as the root directory.
\<close>

theorem Configuration_empty_root_directory_counterexample:
  "env (demo_host [''INPUT_ROOT_DIRECTORY'' \<mapsto> ''''] Map.empty) ''INPUT_ROOT_DIRECTORY'' = Some ''''
   \<and> Configuration (demo_host [''INPUT_ROOT_DIRECTORY'' \<mapsto> ''''] Map.empty)
     = Inl (Error ''Workflow file not found at /repo/.github/workflows/jsdoc-automation.yml'')"
  by (simp add: Configuration_def loadConfiguration_def rootDirectoryFromWorkflow_def
      field_initialisers_def getRepoRoot_def demo_host_def Let_def)

section \<open>Properties of the pipeline\<close>

lemma well_formed_bound: "well_formed pos ps n \<Longrightarrow> pos \<le> n"
proof (induction ps arbitrary: pos)
  case Nil
  then show ?case by simp
next
  case (Cons p ps)
  from Cons.prems have "pos \<le> range_end p" and "well_formed (range_end p) ps n"
    by simp_all
  with Cons.IH [of "range_end p"] show ?case by simp
qed

lemma apply_backward_Cons: "apply_backward text (p # ps) = splice (apply_backward text ps) p"
  by (simp add: apply_backward_def)

lemma take_up_to:
  assumes "pos \<le> s"
  shows "take pos text @ take (s - pos) (drop pos text) = take s text"
proof -
  have "take (pos + (s - pos)) text = take pos text @ take (s - pos) (drop pos text)"
    by (rule take_add)
  with assms show ?thesis by simp
qed

lemma apply_backward_rebuild:
  "well_formed pos ps (length text) \<Longrightarrow>
   apply_backward text ps = take pos text @ rebuild pos ps text"
proof (induction ps arbitrary: pos)
  case Nil
  then show ?case by (simp add: apply_backward_def)
next
  case (Cons p ps)
  let ?s = "range_start p" and ?e = "range_end p"
  from Cons.prems have ord: "pos \<le> ?s" "?s \<le> ?e" and rest: "well_formed ?e ps (length text)"
    by simp_all
  from rest have e: "?e \<le> length text" by (rule well_formed_bound)
  have ih: "apply_backward text ps = take ?e text @ rebuild ?e ps text"
    using rest by (rule Cons.IH)
  have len: "length (take ?e text) = ?e" using e by simp
  have before: "take ?s (take ?e text @ rebuild ?e ps text) = take ?s text"
    using ord(2) len by (simp add: min_def)
  have after: "drop ?e (take ?e text @ rebuild ?e ps text) = rebuild ?e ps text"
    using len by simp
  have "apply_backward text (p # ps) = take ?s text @ replacement p @ rebuild ?e ps text"
    by (simp only: apply_backward_Cons ih splice_def before after)
  also have "\<dots> = take pos text @ rebuild pos (p # ps) text"
    using take_up_to [OF ord(1), of "text"] by simp
  finally show ?case .
qed

lemma rebuild_nth:
  "well_formed pos ps (length text) \<Longrightarrow> pos \<le> i \<Longrightarrow> i < length text \<Longrightarrow> outside ps i \<Longrightarrow>
   rebuild pos ps text ! output_offset pos ps i = text ! i"
proof (induction ps arbitrary: pos)
  case Nil
  then show ?case by simp
next
  case (Cons p ps)
  let ?s = "range_start p" and ?e = "range_end p"
  let ?gap = "take (?s - pos) (drop pos text)"
  from Cons.prems(1) have ord: "pos \<le> ?s" "?s \<le> ?e" and rest: "well_formed ?e ps (length text)"
    by simp_all
  from rest have e: "?e \<le> length text" by (rule well_formed_bound)
  have gap: "length ?gap = ?s - pos" using ord e by simp
  from Cons.prems(4) have out: "\<not> (?s \<le> i \<and> i < ?e)" and out': "outside ps i"
    by (simp_all add: outside_def)
  show ?case
  proof (cases "i < ?s")
    case True
    with Cons.prems(2) have lt: "i - pos < ?s - pos" by arith
    with True have "rebuild pos (p # ps) text ! output_offset pos (p # ps) i = ?gap ! (i - pos)"
      using gap by (simp add: nth_append)
    also have "\<dots> = text ! i"
      using lt Cons.prems(2,3) by simp
    finally show ?thesis .
  next
    case False
    with out have i: "?e \<le> i" by simp
    have "rebuild pos (p # ps) text ! output_offset pos (p # ps) i
            = rebuild ?e ps text ! output_offset ?e ps i"
      using False gap by (simp add: nth_append)
    also have "\<dots> = text ! i"
      using rest i Cons.prems(3) out' by (rule Cons.IH)
    finally show ?thesis .
  qed
qed

lemma outside_sort: "outside (sort_key range_start ps) i = outside ps i"
  by (simp add: outside_def list_all_iff)

text \<open>
  C1: for every text and every set of patches, the Patch Writer either leaves the file
  alone (there is no patch, or the ranges put in order overlap or leave the text, and
  nothing is written), or rewrites it by splicing the ranges of the original text from
  the last to the first; the output is then the original text with each range replaced,
  and every byte of the original outside all patched ranges stands unchanged in the
  output, at its offset moved by the patches before it.
\<close>

theorem patches_preserve_unpatched_bytes:
  "(case write_patches text ps of
      NotRewritten \<Rightarrow> ps = []
    | Rejected reason \<Rightarrow> \<not> well_formed 0 (sort_key range_start ps) (length text)
    | Rewritten output \<Rightarrow>
        well_formed 0 (sort_key range_start ps) (length text)
        \<and> output = apply_backward text (sort_key range_start ps)
        \<and> output = rebuild 0 (sort_key range_start ps) text
        \<and> (\<forall>i<length text. outside ps i \<longrightarrow>
              output ! output_offset 0 (sort_key range_start ps) i = text ! i))"
proof -
  let ?merged = "sort_key range_start ps"
  have empty: "?merged = [] \<longleftrightarrow> ps = []"
    by (metis length_sort length_0_conv)
  show ?thesis
  proof (cases "ps = []")
    case True
    then show ?thesis by (simp add: write_patches_def)
  next
    case False
    show ?thesis
    proof (cases "well_formed 0 ?merged (length text)")
      case wf: True
      have w: "write_patches text ps = Rewritten (apply_backward text ?merged)"
        using wf False empty by (simp add: write_patches_def Let_def)
      have r: "apply_backward text ?merged = rebuild 0 ?merged text"
        using apply_backward_rebuild [OF wf] by simp
      have n: "\<forall>i<length text. outside ps i \<longrightarrow>
           apply_backward text ?merged ! output_offset 0 ?merged i = text ! i"
        using rebuild_nth [OF wf] by (simp add: r outside_sort)
      from wf r n show ?thesis by (simp add: w)
    next
      case nwf: False
      then show ?thesis
        using False empty by (simp add: write_patches_def Let_def)
    qed
  qed
qed

theorem patches_preserve_unpatched_bytes_witness:
  "write_patches ''abcdefgh''
      [\<lparr>range_start = 5, range_end = 7, replacement = ''XYZ''\<rparr>,
       \<lparr>range_start = 2, range_end = 2, replacement = ''--''\<rparr>]
     = Rewritten ''ab--cdeXYZh''
   \<and> output_offset 0 [\<lparr>range_start = 2, range_end = 2, replacement = ''--''\<rparr>,
                       \<lparr>range_start = 5, range_end = 7, replacement = ''XYZ''\<rparr>] 7 = 10
   \<and> ''ab--cdeXYZh'' ! 10 = ''abcdefgh'' ! 7
   \<and> write_patches ''abcdefgh'' [] = NotRewritten
   \<and> write_patches ''abcdefgh''
      [\<lparr>range_start = 1, range_end = 4, replacement = ''X''\<rparr>,
       \<lparr>range_start = 3, range_end = 5, replacement = ''Y''\<rparr>]
     = Rejected ''overlapping or out-of-bounds patch ranges''"
proof -
  let ?ps = "[\<lparr>range_start = 5, range_end = 7, replacement = ''XYZ''\<rparr>,
       \<lparr>range_start = 2, range_end = 2, replacement = ''--''\<rparr>]"
  have s: "sort_key range_start ?ps
     = [\<lparr>range_start = 2, range_end = 2, replacement = ''--''\<rparr>,
        \<lparr>range_start = 5, range_end = 7, replacement = ''XYZ''\<rparr>]"
    by simp
  have w: "write_patches ''abcdefgh'' ?ps = Rewritten ''ab--cdeXYZh''"
    by (simp add: write_patches_def apply_backward_def splice_def)
  have o: "outside ?ps 7" by (simp add: outside_def)
  have f: "output_offset 0 (sort_key range_start ?ps) 7 = 10"
    unfolding s by simp
  have kept: "\<forall>i<length ''abcdefgh''. outside ?ps i \<longrightarrow>
      ''ab--cdeXYZh'' ! output_offset 0 (sort_key range_start ?ps) i = ''abcdefgh'' ! i"
    using patches_preserve_unpatched_bytes [of ?ps "''abcdefgh''"]
    unfolding w write_result.case by (elim conjE)
  have 2: "''ab--cdeXYZh'' ! 10 = ''abcdefgh'' ! 7"
    using kept [rule_format, of 7] o by (simp only: f) simp
  have 3: "write_patches ''abcdefgh'' [] = NotRewritten"
    by (simp add: write_patches_def)
  have 4: "write_patches ''abcdefgh''
      [\<lparr>range_start = 1, range_end = 4, replacement = ''X''\<rparr>,
       \<lparr>range_start = 3, range_end = 5, replacement = ''Y''\<rparr>]
     = Rejected ''overlapping or out-of-bounds patch ranges''"
    by (simp add: write_patches_def)
  from w 2 3 4 f s show ?thesis by simp
qed

text \<open>
  C2: in incremental mode a declaration whose header range and body range intersect no
  changed range of its file receives Skip, whether or not it has a documentation
  comment, as does every declaration of a file absent from the change set; with lines
  10 to 12 changed, of two declarations at lines 1 to 5 and 9 to 20 the first receives
  Skip and the second Generate or Regenerate.
\<close>

theorem untouched_declaration_is_skipped:
  "(\<forall>changed. changes path = Some changed
        \<and> (\<forall>r\<in>set changed. \<not> intersects (header_range d) r \<and> \<not> intersects (body_range d) r)
      \<longrightarrow> incremental_verdict changes path d = Skip)
   \<and> (changes path = None \<longrightarrow> incremental_verdict changes path d = Skip)
   \<and> (header_range d1 = \<lparr>first_line = 1, last_line = 1\<rparr>
        \<and> body_range d1 = \<lparr>first_line = 1, last_line = 5\<rparr>
        \<and> header_range d2 = \<lparr>first_line = 9, last_line = 9\<rparr>
        \<and> body_range d2 = \<lparr>first_line = 9, last_line = 20\<rparr>
      \<longrightarrow> analyze (Incremental [path \<mapsto> [\<lparr>first_line = 10, last_line = 12\<rparr>]]) False path [d1, d2]
            = [(d1, Skip),
               (d2, case doc_range d2 of None \<Rightarrow> Generate | Some doc \<Rightarrow> Regenerate)])"
  by (auto simp: incremental_verdict_def touched_def list_ex_iff analyze_def intersects_def)


theorem untouched_declaration_is_skipped_witness:
  "incremental_verdict [''src/math.ts'' \<mapsto> [\<lparr>first_line = 10, last_line = 12\<rparr>]] ''src/math.ts''
      (demo_decl\<lparr>body_range := \<lparr>first_line = 1, last_line = 5\<rparr>,
                 doc_range := Some \<lparr>first_line = 0, last_line = 0\<rparr>\<rparr>) = Skip
   \<and> incremental_verdict [''src/math.ts'' \<mapsto> [\<lparr>first_line = 10, last_line = 12\<rparr>]] ''src/other.ts''
      demo_decl = Skip
   \<and> analyze (Incremental [''src/math.ts'' \<mapsto> [\<lparr>first_line = 10, last_line = 12\<rparr>]]) False
        ''src/math.ts''
        [demo_decl\<lparr>body_range := \<lparr>first_line = 1, last_line = 5\<rparr>\<rparr>,
         demo_decl\<lparr>qualified_name := ''sub'',
                   header_range := \<lparr>first_line = 9, last_line = 9\<rparr>,
                   body_range := \<lparr>first_line = 9, last_line = 20\<rparr>,
                   doc_range := Some \<lparr>first_line = 7, last_line = 8\<rparr>\<rparr>]
      = [(demo_decl\<lparr>body_range := \<lparr>first_line = 1, last_line = 5\<rparr>\<rparr>, Skip),
         (demo_decl\<lparr>qualified_name := ''sub'',
                   header_range := \<lparr>first_line = 9, last_line = 9\<rparr>,
                   body_range := \<lparr>first_line = 9, last_line = 20\<rparr>,
                   doc_range := Some \<lparr>first_line = 7, last_line = 8\<rparr>\<rparr>, Regenerate)]"
proof -
  let ?cs = "[''src/math.ts'' \<mapsto> [\<lparr>first_line = 10, last_line = 12\<rparr>]]"
  let ?d1 = "demo_decl\<lparr>body_range := \<lparr>first_line = 1, last_line = 5\<rparr>\<rparr>"
  let ?d2 = "demo_decl\<lparr>qualified_name := ''sub'',
                   header_range := \<lparr>first_line = 9, last_line = 9\<rparr>,
                   body_range := \<lparr>first_line = 9, last_line = 20\<rparr>,
                   doc_range := Some \<lparr>first_line = 7, last_line = 8\<rparr>\<rparr>"
  have 1: "incremental_verdict ?cs ''src/math.ts''
      (?d1\<lparr>doc_range := Some \<lparr>first_line = 0, last_line = 0\<rparr>\<rparr>) = Skip"
    using untouched_declaration_is_skipped
      [of ?cs "''src/math.ts''" "?d1\<lparr>doc_range := Some \<lparr>first_line = 0, last_line = 0\<rparr>\<rparr>"]
    by (simp add: demo_decl_def intersects_def)
  have 2: "incremental_verdict ?cs ''src/other.ts'' demo_decl = Skip"
    using untouched_declaration_is_skipped [of ?cs "''src/other.ts''" demo_decl]
    by simp
  have 3: "analyze (Incremental ?cs) False ''src/math.ts'' [?d1, ?d2]
             = [(?d1, Skip), (?d2, Regenerate)]"
    using untouched_declaration_is_skipped [of ?cs "''src/math.ts''" demo_decl ?d1 ?d2]
    by (simp add: demo_decl_def)
  from 1 2 3 show ?thesis by simp
qed

lemma run_files_reports:
  "file_reports (run_files P run fs) = file_reports run @ map (\<lambda>f. fst (process_file P f)) fs"
  by (induction fs arbitrary: run) (auto split: prod.splits)

lemma process_file_path: "report_path (fst (process_file P f)) = relative_path f"
  by (auto simp: process_file_def Let_def split: option.splits sum.splits)

lemma generation_failure_recorded:
  assumes "(d, v, Inl reason) \<in> set results"
  shows "(qualified_name d, reason) \<in> set (generation_failures results)"
  using assms by (force simp: generation_failures_def)

text \<open>
  C3: a run with credentials and a readable root always ends in a report, whatever
  fails below; the report has one entry per file, in order, and the entry of each file
  is the one the file gets by itself, whatever the files before and after it are and
  however they fail. An unreadable file, a parse failure and rejected patches are
  recorded as the failed outcome of the file with the reason, and a declaration whose
  generation failed is recorded in the entry of its file with the reason.
\<close>

theorem failure_isolation:
  fixes P :: pipeline and fs :: "source_file list"
  defines "run \<equiv> run_files P \<lparr>file_reports = [], processed = []\<rparr> fs"
  shows "run_pipeline P True (Some fs) = Inr run
     \<and> map report_path (file_reports run) = map relative_path fs
     \<and> (\<forall>before g after. fs = before @ g # after \<longrightarrow>
           file_reports run ! length before = fst (process_file P g))
     \<and> (\<forall>g. file_reports (run_files P \<lparr>file_reports = [], processed = []\<rparr> [g])
             = [fst (process_file P g)])
     \<and> (\<forall>f. raw_text f = None \<longrightarrow> outcome (fst (process_file P f)) = Failed ''unreadable file'')
     \<and> (\<forall>f content reason. raw_text f = Some content \<and> extractor P content = Inl reason \<longrightarrow>
           outcome (fst (process_file P f)) = Failed (''failed to analyze: '' @ reason))
     \<and> (\<forall>f content decls reason. raw_text f = Some content \<and> extractor P content = Inr decls
             \<and> write_patches content (patch_set (generation_results P (relative_path f) decls))
                 = Rejected reason \<longrightarrow>
           outcome (fst (process_file P f)) = Failed reason)
     \<and> (\<forall>f content decls d v reason. raw_text f = Some content \<and> extractor P content = Inr decls
             \<and> (d, v, Inl reason) \<in> set (generation_results P (relative_path f) decls) \<longrightarrow>
           (qualified_name d, reason) \<in> set (failed_declarations (fst (process_file P f))))"
proof -
  have a: "run_pipeline P True (Some fs) = Inr run"
    by (simp add: run_pipeline_def run_def)
  have r: "file_reports run = map (\<lambda>f. fst (process_file P f)) fs"
    by (simp add: run_def run_files_reports)
  have b: "map report_path (file_reports run) = map relative_path fs"
    by (simp add: r process_file_path)
  have c: "\<forall>before g after. fs = before @ g # after \<longrightarrow>
           file_reports run ! length before = fst (process_file P g)"
    by (auto simp: r nth_append)
  have d: "\<forall>g. file_reports (run_files P \<lparr>file_reports = [], processed = []\<rparr> [g])
             = [fst (process_file P g)]"
    unfolding run_files_reports by simp
  have e: "\<forall>f. raw_text f = None \<longrightarrow> outcome (fst (process_file P f)) = Failed ''unreadable file''"
    by (simp add: process_file_def)
  have f: "\<forall>f content reason. raw_text f = Some content \<and> extractor P content = Inl reason \<longrightarrow>
           outcome (fst (process_file P f)) = Failed (''failed to analyze: '' @ reason)"
    by (simp add: process_file_def)
  have g: "\<forall>f content decls reason. raw_text f = Some content \<and> extractor P content = Inr decls
             \<and> write_patches content (patch_set (generation_results P (relative_path f) decls))
                 = Rejected reason \<longrightarrow>
           outcome (fst (process_file P f)) = Failed reason"
    by (simp add: process_file_def Let_def)
  have h: "\<forall>f content decls d v reason. raw_text f = Some content \<and> extractor P content = Inr decls
             \<and> (d, v, Inl reason) \<in> set (generation_results P (relative_path f) decls) \<longrightarrow>
           (qualified_name d, reason) \<in> set (failed_declarations (fst (process_file P f)))"
    by (auto simp: process_file_def Let_def intro: generation_failure_recorded)
  from a b c d e f g h show ?thesis by blast
qed

theorem failure_isolation_witness:
  "run_pipeline demo_pipeline True
      (Some [\<lparr>relative_path = ''src/bad.ts'', raw_text = Some ''function (''\<rparr>,
             \<lparr>relative_path = ''src/a.ts'', raw_text = Some ''function add(a, b) {}''\<rparr>,
             \<lparr>relative_path = ''src/b.ts'', raw_text = Some ''function add(x, y) {}''\<rparr>])
     = Inr (run_files demo_pipeline \<lparr>file_reports = [], processed = []\<rparr>
         [\<lparr>relative_path = ''src/bad.ts'', raw_text = Some ''function (''\<rparr>,
          \<lparr>relative_path = ''src/a.ts'', raw_text = Some ''function add(a, b) {}''\<rparr>,
          \<lparr>relative_path = ''src/b.ts'', raw_text = Some ''function add(x, y) {}''\<rparr>])
   \<and> file_reports (run_files demo_pipeline \<lparr>file_reports = [], processed = []\<rparr>
         [\<lparr>relative_path = ''src/bad.ts'', raw_text = Some ''function (''\<rparr>,
          \<lparr>relative_path = ''src/a.ts'', raw_text = Some ''function add(a, b) {}''\<rparr>,
          \<lparr>relative_path = ''src/b.ts'', raw_text = Some ''function add(x, y) {}''\<rparr>]) ! 0
     = \<lparr>report_path = ''src/bad.ts'', outcome = Failed ''failed to analyze: syntax error'',
        failed_declarations = []\<rparr>
   \<and> file_reports (run_files demo_pipeline \<lparr>file_reports = [], processed = []\<rparr>
         [\<lparr>relative_path = ''src/bad.ts'', raw_text = Some ''function (''\<rparr>,
          \<lparr>relative_path = ''src/a.ts'', raw_text = Some ''function add(a, b) {}''\<rparr>,
          \<lparr>relative_path = ''src/b.ts'', raw_text = Some ''function add(x, y) {}''\<rparr>]) ! 1
     = \<lparr>report_path = ''src/a.ts'',
        outcome = Patched ''/** Adds two numbers. */ function add(a, b) {}'',
        failed_declarations = []\<rparr>
   \<and> file_reports (run_files demo_pipeline \<lparr>file_reports = [], processed = []\<rparr>
         [\<lparr>relative_path = ''src/bad.ts'', raw_text = Some ''function (''\<rparr>,
          \<lparr>relative_path = ''src/a.ts'', raw_text = Some ''function add(a, b) {}''\<rparr>,
          \<lparr>relative_path = ''src/b.ts'', raw_text = Some ''function add(x, y) {}''\<rparr>]) ! 2
     = \<lparr>report_path = ''src/b.ts'',
        outcome = Patched ''/** Adds two numbers. */ function add(x, y) {}'',
        failed_declarations = []\<rparr>"
proof -
  let ?bad = "\<lparr>relative_path = ''src/bad.ts'', raw_text = Some ''function (''\<rparr>"
  let ?a = "\<lparr>relative_path = ''src/a.ts'', raw_text = Some ''function add(a, b) {}''\<rparr>"
  let ?b = "\<lparr>relative_path = ''src/b.ts'', raw_text = Some ''function add(x, y) {}''\<rparr>"
  let ?fs = "[?bad, ?a, ?b]"
  let ?run = "run_files demo_pipeline \<lparr>file_reports = [], processed = []\<rparr> ?fs"
  note whole = failure_isolation [of demo_pipeline ?fs]
  from whole have ok: "run_pipeline demo_pipeline True (Some ?fs) = Inr ?run"
    by (rule conjunct1)
  note each = whole [THEN conjunct2, THEN conjunct2, THEN conjunct1]
  have 0: "file_reports ?run ! 0 = fst (process_file demo_pipeline ?bad)"
    using each [rule_format, of "[]" ?bad "[?a, ?b]"] by (simp del: run_files.simps)
  have 1: "file_reports ?run ! 1 = fst (process_file demo_pipeline ?a)"
    using each [rule_format, of "[?bad]" ?a "[?b]"] by (simp del: run_files.simps)
  have 2: "file_reports ?run ! 2 = fst (process_file demo_pipeline ?b)"
    using each [rule_format, of "[?bad, ?a]" ?b "[]"]
    by (simp del: run_files.simps add: numeral_2_eq_2)
  have p0: "fst (process_file demo_pipeline ?bad)
     = \<lparr>report_path = ''src/bad.ts'', outcome = Failed ''failed to analyze: syntax error'',
        failed_declarations = []\<rparr>"
    by (simp add: process_file_def demo_pipeline_def)
  have p1: "fst (process_file demo_pipeline ?a)
     = \<lparr>report_path = ''src/a.ts'',
        outcome = Patched ''/** Adds two numbers. */ function add(a, b) {}'',
        failed_declarations = []\<rparr>"
    by (simp add: process_file_def demo_pipeline_def demo_decl_def generation_results_def
        analyze_def full_scan_verdict_def patch_set_def generation_failures_def patch_for_def
        write_patches_def apply_backward_def splice_def Let_def)
  have p2: "fst (process_file demo_pipeline ?b)
     = \<lparr>report_path = ''src/b.ts'',
        outcome = Patched ''/** Adds two numbers. */ function add(x, y) {}'',
        failed_declarations = []\<rparr>"
    by (simp add: process_file_def demo_pipeline_def demo_decl_def generation_results_def
        analyze_def full_scan_verdict_def patch_set_def generation_failures_def patch_for_def
        write_patches_def apply_backward_def splice_def Let_def)
  from ok 0 1 2 p0 p1 p2 show ?thesis by (simp only:)
qed

end
